theory Spec2Isabelle
  imports Complex_Main
begin

section \<open>Hybrid classifiers of \<^verbatim>\<open>classifiers/hybrid/models.py\<close>\<close>

text \<open>
  The three classes of the module are embedded as functions on lists: a tensor of rank
  1, 2 or 3 is a list, a list of rows or a list of matrices of reals; every Python or
  torch exception is a value of the type \<open>error\<close>. Floating-point numbers are read
  as real numbers, so equalities between outputs are equalities of exact arithmetic.
\<close>

subsection \<open>Errors\<close>

datatype error = ValueError string | IndexError | RuntimeError

definition and_then :: "error + 'a \<Rightarrow> ('a \<Rightarrow> error + 'b) \<Rightarrow> error + 'b" where
  "and_then r f = (case r of Inl e \<Rightarrow> Inl e | Inr v \<Rightarrow> f v)"

fun each :: "('a \<Rightarrow> error + 'b) \<Rightarrow> 'a list \<Rightarrow> error + 'b list" where
  "each f [] = Inr []"
| "each f (x # xs) = and_then (f x) (\<lambda>y. and_then (each f xs) (\<lambda>ys. Inr (y # ys)))"

definition py_index :: "'a list \<Rightarrow> int \<Rightarrow> error + 'a" where
  \<comment> \<open>\<^verbatim>\<open>xs[i]\<close> for a list: \<open>-1\<close> is the last entry, and an index outside
      \<open>-len(xs) .. len(xs) - 1\<close> raises\<close>
  "py_index xs i =
     (if 0 \<le> i \<and> i < int (length xs) then Inr (xs ! nat i)
      else if i < 0 \<and> - int (length xs) \<le> i then Inr (xs ! nat (int (length xs) + i))
      else Inl IndexError)"

subsection \<open>Tensors and the networks imported from other packages\<close>

type_synonym vec = "real list"
type_synonym mat = "real list list"
type_synonym tensor3 = "real list list list"

text \<open>
  A constructed sub-network maps the event tensor \<open>[batch, 2, 4]\<close> to a matrix
  \<open>[batch, k]\<close>, or raises. The classes \<^verbatim>\<open>ParticleFlowNetwork\<close>,
  \<^verbatim>\<open>ParticleMapping\<close> and \<^verbatim>\<open>LorenzInvariantNetwork\<close> are imported from
  \<^verbatim>\<open>classifiers.general\<close> and \<^verbatim>\<open>classifiers.invariant\<close>; their constructors are
  parameters of the model, each returning a network or an error.
\<close>

type_synonym net = "tensor3 \<Rightarrow> error + mat"

record extern =
  ParticleFlowNetwork :: "nat \<Rightarrow> nat \<Rightarrow> nat \<Rightarrow> nat list \<Rightarrow> nat list \<Rightarrow> error + net"
  ParticleMapping :: "nat \<Rightarrow> nat \<Rightarrow> nat \<Rightarrow> nat list \<Rightarrow> error + net"
  LorenzInvariantNetwork :: "nat \<Rightarrow> nat list \<Rightarrow> error + net"

subsection \<open>Layers of an \<^verbatim>\<open>nn.Sequential\<close> and the loop that appends them\<close>

datatype layer = Linear nat nat | BatchNorm1d nat | ReLU | Softmax nat

definition next_width :: "nat list \<Rightarrow> nat \<Rightarrow> nat" where
  \<comment> \<open>\<^verbatim>\<open>dims[i] if i == len(dims) - 1 else dims[i + 1]\<close>\<close>
  "next_width dims i = (if i = length dims - 1 then dims ! i else dims ! (i + 1))"

definition loop_body :: "nat list \<Rightarrow> nat \<Rightarrow> layer list \<Rightarrow> layer list" where
  \<comment> \<open>the three \<^verbatim>\<open>append\<close> calls of one iteration\<close>
  "loop_body dims i stack =
     stack @ [Linear (dims ! i) (next_width dims i)] @ [BatchNorm1d (next_width dims i)] @ [ReLU]"

definition append_hidden :: "nat list \<Rightarrow> layer list \<Rightarrow> layer list" where
  \<comment> \<open>\<^verbatim>\<open>for i in range(len(dims)): ...\<close>, written the same way in all three stacks\<close>
  "append_hidden dims stack = fold (loop_body dims) [0..<length dims] stack"

subsection \<open>\<^verbatim>\<open>WeightedHybridClassifier\<close>\<close>

record WeightedHybridClassifier =
  general_p_map :: net
  invariant_p_map :: net
  invariant_network_weight :: real
  general_network_weight :: real

definition WeightedHybridClassifier_init ::
  "extern \<Rightarrow> real \<Rightarrow> nat \<Rightarrow> nat list \<Rightarrow> nat list \<Rightarrow> nat list \<Rightarrow> error + WeightedHybridClassifier" where
  "WeightedHybridClassifier_init ext invariant_network_weight' latent_space_dim
       pfn_mapping_hidden_layer_dimensions pfn_classifier_hidden_layer_dimensions
       lorenz_invariant_hidden_layer_dimensions =
     and_then (ParticleFlowNetwork ext 4 8 latent_space_dim
                 pfn_classifier_hidden_layer_dimensions pfn_mapping_hidden_layer_dimensions) (\<lambda>gp.
     and_then (LorenzInvariantNetwork ext 1 lorenz_invariant_hidden_layer_dimensions) (\<lambda>ip.
     if invariant_network_weight' > 1 \<or> invariant_network_weight' < 0
     then Inl (ValueError ''Classifier weights must be between 0 and 1.'')
     else Inr \<lparr> general_p_map = gp, invariant_p_map = ip,
                invariant_network_weight = invariant_network_weight',
                general_network_weight = 1 - invariant_network_weight' \<rparr>))"

subsection \<open>\<^verbatim>\<open>LearnedWeightHybridClassifier\<close>\<close>

text \<open>
  The gate is \<^verbatim>\<open>nn.Sequential(ParticleMapping(...), nn.Linear(...), ...)\<close>: its first
  module is a constructed \<^verbatim>\<open>ParticleMapping\<close>, kept as the first component of
  \<open>stack\<close>; the layers after it are the second component.
\<close>

record LearnedWeightHybridClassifier =
  general_p_map :: net
  invariant_p_map :: net
  stack :: "net \<times> layer list"

definition LearnedWeightHybridClassifier_init ::
  "extern \<Rightarrow> nat \<Rightarrow> nat list \<Rightarrow> nat list \<Rightarrow> nat list \<Rightarrow> nat list
     \<Rightarrow> error + LearnedWeightHybridClassifier" where
  "LearnedWeightHybridClassifier_init ext latent_space_dim
       pfn_mapping_hidden_layer_dimensions pfn_classifier_hidden_layer_dimensions
       lorenz_invariant_hidden_layer_dimensions weight_network_hidden_layer_dimensions =
     and_then (ParticleFlowNetwork ext 4 8 latent_space_dim
                 pfn_classifier_hidden_layer_dimensions pfn_mapping_hidden_layer_dimensions) (\<lambda>gp.
     and_then (LorenzInvariantNetwork ext 1 lorenz_invariant_hidden_layer_dimensions) (\<lambda>ip.
     if length weight_network_hidden_layer_dimensions = 0
     then Inl (ValueError ''Length of weight_network_hidden_layer_dimensions cannot be zero.'')
     else
     and_then (ParticleMapping ext 4 8 latent_space_dim pfn_mapping_hidden_layer_dimensions) (\<lambda>pm.
     and_then (py_index weight_network_hidden_layer_dimensions 0) (\<lambda>h0.
     let layers = [Linear latent_space_dim h0, BatchNorm1d h0, ReLU];
         layers = append_hidden weight_network_hidden_layer_dimensions layers
     in
     and_then (py_index weight_network_hidden_layer_dimensions (- 1)) (\<lambda>hl.
     let layers = layers @ [Linear hl 2];
         layers = layers @ [Softmax 1]
     in Inr \<lparr> general_p_map = gp, invariant_p_map = ip, stack = (pm, layers) \<rparr>)))))"

subsection \<open>\<^verbatim>\<open>LatentSpacePooledHybridClassifier\<close>\<close>

record LatentSpacePooledHybridClassifier =
  general_p_map :: net
  invariant_p_map :: net
  weight_network :: "layer list"
  general_classifier_preference :: "real option"
  stack :: "layer list"

definition LatentSpacePooledHybridClassifier_init ::
  "extern \<Rightarrow> nat \<Rightarrow> nat list \<Rightarrow> nat list \<Rightarrow> nat list \<Rightarrow> nat list \<Rightarrow> real option
     \<Rightarrow> error + LatentSpacePooledHybridClassifier" where
  "LatentSpacePooledHybridClassifier_init ext latent_space_dim
       pfn_mapping_hidden_layer_dimensions lorenz_invariant_hidden_layer_dimensions
       weight_network_hidden_layer_dimensions classifier_hidden_layer_dimensions
       general_classifier_preference' =
     and_then (ParticleMapping ext 4 8 latent_space_dim pfn_mapping_hidden_layer_dimensions) (\<lambda>gp.
     and_then (LorenzInvariantNetwork ext latent_space_dim
                 lorenz_invariant_hidden_layer_dimensions) (\<lambda>ip.
     if length weight_network_hidden_layer_dimensions = 0
     then Inl (ValueError ''Length of weight_network_hidden_layer_dimensions cannot be zero.'')
     else
     and_then (py_index weight_network_hidden_layer_dimensions 0) (\<lambda>w0.
     let wn = [Linear 1 w0, BatchNorm1d w0, ReLU];
         wn = append_hidden weight_network_hidden_layer_dimensions wn
     in
     and_then (py_index weight_network_hidden_layer_dimensions (- 1)) (\<lambda>wl.
     let wn = wn @ [Linear wl 2];
         wn = wn @ [Softmax 1]
     in
     and_then (py_index classifier_hidden_layer_dimensions 0) (\<lambda>c0.
     let st = [Linear latent_space_dim c0, BatchNorm1d c0, ReLU];
         st = append_hidden classifier_hidden_layer_dimensions st
     in
     and_then (py_index classifier_hidden_layer_dimensions (- 1)) (\<lambda>cl.
     let st = st @ [Linear cl 1]
     in Inr \<lparr> general_p_map = gp, invariant_p_map = ip, weight_network = wn,
                general_classifier_preference = general_classifier_preference',
                stack = st \<rparr>))))))"

subsection \<open>Tensor operations used by the forward passes\<close>

definition broadcast :: "('a \<Rightarrow> 'b \<Rightarrow> error + 'c) \<Rightarrow> 'a list \<Rightarrow> 'b list \<Rightarrow> error + 'c list" where
  \<comment> \<open>one axis of torch broadcasting: equal sizes pair up, a size-1 axis is repeated,
      anything else raises\<close>
  "broadcast f xs ys =
     (if length xs = length ys then each (\<lambda>(x, y). f x y) (zip xs ys)
      else if length ys = 1 then each (\<lambda>x. f x (hd ys)) xs
      else if length xs = 1 then each (\<lambda>y. f (hd xs) y) ys
      else Inl RuntimeError)"

definition torch_mul2 :: "mat \<Rightarrow> mat \<Rightarrow> error + mat" where
  "torch_mul2 = broadcast (broadcast (\<lambda>a b. Inr (a * b)))"

definition torch_add1 :: "vec \<Rightarrow> vec \<Rightarrow> error + vec" where
  "torch_add1 = broadcast (\<lambda>a b. Inr (a + b))"

definition torch_add2 :: "mat \<Rightarrow> mat \<Rightarrow> error + mat" where
  "torch_add2 = broadcast torch_add1"

definition torch_mul3 :: "tensor3 \<Rightarrow> tensor3 \<Rightarrow> error + tensor3" where
  "torch_mul3 = broadcast torch_mul2"

definition torch_add3 :: "tensor3 \<Rightarrow> tensor3 \<Rightarrow> error + tensor3" where
  "torch_add3 = broadcast torch_add2"

definition scalar_mul2 :: "mat \<Rightarrow> real \<Rightarrow> mat" where
  \<comment> \<open>\<^verbatim>\<open>torch.mul(t, c)\<close> with a Python number \<open>c\<close>\<close>
  "scalar_mul2 t c = map (map (\<lambda>a. a * c)) t"

definition scalar_mul3 :: "tensor3 \<Rightarrow> real \<Rightarrow> tensor3" where
  "scalar_mul3 t c = map (\<lambda>m. scalar_mul2 m c) t"

definition index_last1 :: "vec \<Rightarrow> nat \<Rightarrow> error + real" where
  \<comment> \<open>\<^verbatim>\<open>t[..., k]\<close> on rank 1\<close>
  "index_last1 t k = (if k < length t then Inr (t ! k) else Inl IndexError)"

definition index_last2 :: "mat \<Rightarrow> nat \<Rightarrow> error + vec" where
  \<comment> \<open>\<^verbatim>\<open>t[..., k]\<close> on rank 2: entry \<open>k\<close> of every row\<close>
  "index_last2 t k = each (\<lambda>r. index_last1 r k) t"

definition index_last3 :: "tensor3 \<Rightarrow> nat \<Rightarrow> error + mat" where
  \<comment> \<open>\<^verbatim>\<open>t[..., k]\<close> on rank 3: entry \<open>k\<close> along the last axis\<close>
  "index_last3 t k = each (\<lambda>m. index_last2 m k) t"

definition unsqueeze1 :: "vec \<Rightarrow> mat" where
  \<comment> \<open>\<^verbatim>\<open>t.unsqueeze(1)\<close> on rank 1: shape \<open>[n]\<close> becomes \<open>[n, 1]\<close>\<close>
  "unsqueeze1 t = map (\<lambda>a. [a]) t"

definition torch_pow :: "vec \<Rightarrow> nat \<Rightarrow> vec" where
  "torch_pow t n = map (\<lambda>a. a ^ n) t"

definition torch_sqrt :: "vec \<Rightarrow> vec" where
  "torch_sqrt t = map sqrt t"

definition torch_stack1 :: "mat \<Rightarrow> mat \<Rightarrow> error + tensor3" where
  \<comment> \<open>\<^verbatim>\<open>torch.stack((a, b), dim=1)\<close>: both tensors must have the same shape\<close>
  "torch_stack1 a b =
     (if list_all2 (\<lambda>u v. length u = length v) a b
      then Inr (map (\<lambda>(u, v). [u, v]) (zip a b)) else Inl RuntimeError)"

fun pairs :: "real list \<Rightarrow> tensor3" where
  "pairs (a # b # rest) = [[a], [b]] # pairs rest"
| "pairs _ = []"

definition reshape_2_1 :: "mat \<Rightarrow> error + tensor3" where
  \<comment> \<open>\<^verbatim>\<open>t.reshape(-1, 2, 1)\<close>: the entries in row-major order, two per block\<close>
  "reshape_2_1 t =
     (let flat = concat t in if even (length flat) then Inr (pairs flat) else Inl RuntimeError)"

subsection \<open>Running an \<^verbatim>\<open>nn.Sequential\<close> on a rank-2 tensor\<close>

text \<open>
  The learned state of a stack is indexed by the position of the layer: the weight
  \<open>[out, in]\<close> and the bias \<open>[out]\<close> of a linear layer, and the function a batch
  normalisation computes (batch statistics in training mode, running statistics in
  evaluation mode). A stored weight or bias of another shape than the layer declares
  is reported as a \<open>RuntimeError\<close>, like an input row of the wrong width.
\<close>

record learned =
  linear_weight :: "nat \<Rightarrow> mat"
  linear_bias :: "nat \<Rightarrow> vec"
  batch_norm :: "nat \<Rightarrow> mat \<Rightarrow> error + mat"

definition linear :: "nat \<Rightarrow> nat \<Rightarrow> mat \<Rightarrow> vec \<Rightarrow> mat \<Rightarrow> error + mat" where
  "linear n_in n_out W b x =
     (if length W = n_out \<and> list_all (\<lambda>w. length w = n_in) W \<and> length b = n_out
         \<and> list_all (\<lambda>r. length r = n_in) x
      then Inr (map (\<lambda>r. map (\<lambda>(w, c). sum_list (map (\<lambda>(a, k). a * k) (zip r w)) + c) (zip W b)) x)
      else Inl RuntimeError)"

definition softmax :: "vec \<Rightarrow> vec" where
  "softmax z = map (\<lambda>v. exp v / sum_list (map exp z)) z"

definition softmax_dim :: "nat \<Rightarrow> mat \<Rightarrow> error + mat" where
  "softmax_dim d x =
     (if d = 1 then Inr (map softmax x)
      else if d = 0 then Inr (transpose (map softmax (transpose x)))
      else Inl IndexError)"

fun layer_forward :: "learned \<Rightarrow> nat \<Rightarrow> layer \<Rightarrow> mat \<Rightarrow> error + mat" where
  "layer_forward \<theta> i (Linear n_in n_out) x =
     linear n_in n_out (linear_weight \<theta> i) (linear_bias \<theta> i) x"
| "layer_forward \<theta> i (BatchNorm1d n) x = batch_norm \<theta> i x"
| "layer_forward \<theta> i ReLU x = Inr (map (map (max 0)) x)"
| "layer_forward \<theta> i (Softmax d) x = softmax_dim d x"

fun sequential_forward :: "learned \<Rightarrow> nat \<Rightarrow> layer list \<Rightarrow> mat \<Rightarrow> error + mat" where
  "sequential_forward \<theta> i [] x = Inr x"
| "sequential_forward \<theta> i (l # ls) x =
     and_then (layer_forward \<theta> i l x) (sequential_forward \<theta> (Suc i) ls)"

subsection \<open>Forward passes of the weighted and the learned-weight classifier\<close>

definition WeightedHybridClassifier_forward ::
  "WeightedHybridClassifier \<Rightarrow> tensor3 \<Rightarrow> error + mat" where
  "WeightedHybridClassifier_forward self x =
     and_then (WeightedHybridClassifier.general_p_map self x) (\<lambda>general_result.
     and_then (WeightedHybridClassifier.invariant_p_map self x) (\<lambda>invariant_result.
     torch_add2 (scalar_mul2 general_result (general_network_weight self))
                (scalar_mul2 invariant_result (invariant_network_weight self))))"

definition LearnedWeightHybridClassifier_gate ::
  "LearnedWeightHybridClassifier \<Rightarrow> learned \<Rightarrow> tensor3 \<Rightarrow> error + mat" where
  \<comment> \<open>\<^verbatim>\<open>self.stack(x)\<close>: the particle mapping is module 0, the layers follow from 1\<close>
  "LearnedWeightHybridClassifier_gate self \<theta> x =
     (case LearnedWeightHybridClassifier.stack self of
        (pm, layers) \<Rightarrow> and_then (pm x) (sequential_forward \<theta> 1 layers))"

definition LearnedWeightHybridClassifier_forward ::
  "LearnedWeightHybridClassifier \<Rightarrow> learned \<Rightarrow> tensor3 \<Rightarrow> error + mat" where
  "LearnedWeightHybridClassifier_forward self \<theta> x =
     and_then (LearnedWeightHybridClassifier.general_p_map self x) (\<lambda>general_result.
     and_then (LearnedWeightHybridClassifier.invariant_p_map self x) (\<lambda>invariant_result.
     and_then (LearnedWeightHybridClassifier_gate self \<theta> x) (\<lambda>network_weights.
     and_then (index_last2 network_weights 0) (\<lambda>g.
     let general_weight = unsqueeze1 g in
     and_then (index_last2 network_weights 1) (\<lambda>i.
     let invariant_weight = unsqueeze1 i in
     and_then (torch_mul2 general_result general_weight) (\<lambda>a.
     and_then (torch_mul2 invariant_result invariant_weight) (\<lambda>b.
     torch_add2 a b)))))))"

subsection \<open>Forward pass of the latent-space-pooled classifier\<close>

text \<open>
  \<^verbatim>\<open>squeeze()\<close> returns a tensor whose rank depends on the sizes of the input, so its
  result is a tensor of any rank: a scalar, or a list of tensors of one shape.
\<close>

datatype tensor = Scalar real | Tensor "tensor list"

definition of_vec :: "vec \<Rightarrow> tensor" where
  "of_vec t = Tensor (map Scalar t)"

definition of_mat :: "mat \<Rightarrow> tensor" where
  "of_mat t = Tensor (map of_vec t)"

definition of_tensor3 :: "tensor3 \<Rightarrow> tensor" where
  "of_tensor3 t = Tensor (map of_mat t)"

fun shape :: "tensor \<Rightarrow> nat list" where
  "shape (Scalar a) = []"
| "shape (Tensor []) = [0]"
| "shape (Tensor (t # ts)) = Suc (length ts) # shape t"

fun squeeze :: "tensor \<Rightarrow> tensor" where
  \<comment> \<open>every axis of size 1 is removed\<close>
  "squeeze (Scalar a) = Scalar a"
| "squeeze (Tensor [t]) = squeeze t"
| "squeeze (Tensor ts) = Tensor (map squeeze ts)"

fun to_scalar :: "tensor \<Rightarrow> error + real" where
  "to_scalar (Scalar a) = Inr a"
| "to_scalar (Tensor ts) = Inl RuntimeError"

fun to_vec :: "tensor \<Rightarrow> error + vec" where
  "to_vec (Scalar a) = Inl RuntimeError"
| "to_vec (Tensor ts) = each to_scalar ts"

fun to_mat :: "tensor \<Rightarrow> error + mat" where
  "to_mat (Scalar a) = Inl RuntimeError"
| "to_mat (Tensor ts) = each to_vec ts"

fun pool_rows :: "mat \<Rightarrow> mat" where
  \<comment> \<open>window \<open>(2, 1)\<close>, stride equal to the window: consecutive pairs of rows are averaged\<close>
  "pool_rows (r1 # r2 # rest) = map (\<lambda>(a, b). (a + b) / 2) (zip r1 r2) # pool_rows rest"
| "pool_rows _ = []"

definition avg_pool_2d :: "tensor3 \<Rightarrow> error + tensor3" where
  \<comment> \<open>\<^verbatim>\<open>nn.AvgPool2d((2, 1))\<close> on a rank-3 input \<open>[C, H, W]\<close>: an empty first axis is
      refused, and an input with fewer than two rows or with empty rows has no
      output window\<close>
  "avg_pool_2d x =
     (if x = [] then Inl RuntimeError
      else each (\<lambda>m. if length m < 2 \<or> list_ex (\<lambda>r. length r = 0) m then Inl RuntimeError
                      else Inr (pool_rows m)) x)"

definition sum_pool_2d :: "tensor3 \<Rightarrow> error + tensor" where
  "sum_pool_2d x =
     and_then (avg_pool_2d x) (\<lambda>x.
     let x = scalar_mul3 x 2;
         x = squeeze (of_tensor3 x)
     in Inr x)"

definition transverse_momentum :: "tensor3 \<Rightarrow> error + mat" where
  \<comment> \<open>\<^verbatim>\<open>torch.sqrt(torch.add(torch.pow(x[..., 0][..., 0], 2),
      torch.pow(x[..., 1][..., 0], 2))).unsqueeze(1)\<close>\<close>
  "transverse_momentum x =
     and_then (index_last3 x 0) (\<lambda>x0.
     and_then (index_last2 x0 0) (\<lambda>x00.
     and_then (index_last3 x 1) (\<lambda>x1.
     and_then (index_last2 x1 0) (\<lambda>x10.
     and_then (torch_add1 (torch_pow x00 2) (torch_pow x10 2)) (\<lambda>s.
     Inr (unsqueeze1 (torch_sqrt s)))))))"

definition apply_preference :: "real option \<Rightarrow> tensor3 \<Rightarrow> error + tensor3" where
  \<comment> \<open>the \<^verbatim>\<open>if self.general_classifier_preference is not None:\<close> block; the two
      rank-2 constants \<open>[2, 1]\<close> broadcast against \<open>[batch, 2, 1]\<close>\<close>
  "apply_preference preference pool_weights =
     (case preference of
        None \<Rightarrow> Inr pool_weights
      | Some p \<Rightarrow>
          let skew_weights = [[1 - p], [1 - p]] in
          and_then (torch_mul3 pool_weights [skew_weights]) (\<lambda>pool_weights.
          torch_add3 pool_weights [[[p], [0]]]))"

definition pool_weights_of ::
  "LatentSpacePooledHybridClassifier \<Rightarrow> learned \<Rightarrow> tensor3 \<Rightarrow> error + tensor3" where
  \<comment> \<open>the pool weights of the forward pass, after the optional skew\<close>
  "pool_weights_of self \<theta>w x =
     and_then (transverse_momentum x) (\<lambda>pT.
     and_then (sequential_forward \<theta>w 0 (weight_network self) pT) (\<lambda>w.
     and_then (reshape_2_1 w) (\<lambda>pool_weights.
     apply_preference (general_classifier_preference self) pool_weights)))"

definition pooled_latent ::
  "LatentSpacePooledHybridClassifier \<Rightarrow> learned \<Rightarrow> tensor3 \<Rightarrow> error + tensor" where
  \<comment> \<open>the forward pass up to \<^verbatim>\<open>self.sum_pool_2d(combined_result)\<close>; \<open>\<theta>w\<close> is the
      learned state of \<^verbatim>\<open>weight_network\<close>\<close>
  "pooled_latent self \<theta>w x =
     and_then (LatentSpacePooledHybridClassifier.general_p_map self x) (\<lambda>general_result.
     and_then (LatentSpacePooledHybridClassifier.invariant_p_map self x) (\<lambda>invariant_result.
     and_then (torch_stack1 general_result invariant_result) (\<lambda>combined_result.
     and_then (pool_weights_of self \<theta>w x) (\<lambda>pool_weights.
     and_then (torch_mul3 combined_result pool_weights) (\<lambda>combined_result.
     sum_pool_2d combined_result)))))"

text \<open>
  The classifier head receives whatever \<^verbatim>\<open>squeeze()\<close> returned. On a rank-2 tensor
  it runs as every stack does. On a rank-1 tensor a linear layer maps the one
  vector and \<^verbatim>\<open>BatchNorm1d\<close> refuses its input; on a scalar a linear layer
  already refuses. \<open>sum_pool_2d\<close> returns no tensor of higher rank.
\<close>

fun layer_forward1 :: "learned \<Rightarrow> nat \<Rightarrow> layer \<Rightarrow> vec \<Rightarrow> error + vec" where
  "layer_forward1 \<theta> i (Linear n_in n_out) v =
     and_then (linear n_in n_out (linear_weight \<theta> i) (linear_bias \<theta> i) [v]) (\<lambda>y. Inr (concat y))"
| "layer_forward1 \<theta> i (BatchNorm1d n) v =
     Inl (ValueError ''expected 2D or 3D input (got 1D input)'')"
| "layer_forward1 \<theta> i ReLU v = Inr (map (max 0) v)"
| "layer_forward1 \<theta> i (Softmax d) v = (if d = 0 then Inr (softmax v) else Inl IndexError)"

fun layer_forward0 :: "learned \<Rightarrow> nat \<Rightarrow> layer \<Rightarrow> real \<Rightarrow> error + real" where
  "layer_forward0 \<theta> i (Linear n_in n_out) a = Inl RuntimeError"
| "layer_forward0 \<theta> i (BatchNorm1d n) a =
     Inl (ValueError ''expected 2D or 3D input (got 0D input)'')"
| "layer_forward0 \<theta> i ReLU a = Inr (max 0 a)"
| "layer_forward0 \<theta> i (Softmax d) a = (if d = 0 then Inr 1 else Inl IndexError)"

fun run_layers :: "(nat \<Rightarrow> layer \<Rightarrow> 'a \<Rightarrow> error + 'a) \<Rightarrow> nat \<Rightarrow> layer list \<Rightarrow> 'a \<Rightarrow> error + 'a" where
  "run_layers f i [] x = Inr x"
| "run_layers f i (l # ls) x = and_then (f i l x) (run_layers f (Suc i) ls)"

definition run_stack :: "learned \<Rightarrow> layer list \<Rightarrow> tensor \<Rightarrow> error + tensor" where
  "run_stack \<theta> layers t =
     (case t of
        Scalar a \<Rightarrow> and_then (run_layers (layer_forward0 \<theta>) 0 layers a) (\<lambda>r. Inr (Scalar r))
      | Tensor ts \<Rightarrow>
          (case to_vec t of
             Inr v \<Rightarrow> and_then (run_layers (layer_forward1 \<theta>) 0 layers v) (\<lambda>r. Inr (of_vec r))
           | Inl e \<Rightarrow>
               and_then (to_mat t) (\<lambda>m.
               and_then (sequential_forward \<theta> 0 layers m) (\<lambda>r. Inr (of_mat r)))))"

definition LatentSpacePooledHybridClassifier_forward ::
  "LatentSpacePooledHybridClassifier \<Rightarrow> learned \<Rightarrow> learned \<Rightarrow> tensor3 \<Rightarrow> error + tensor" where
  \<comment> \<open>\<open>\<theta>s\<close> is the learned state of \<^verbatim>\<open>stack\<close>\<close>
  "LatentSpacePooledHybridClassifier_forward self \<theta>w \<theta>s x =
     and_then (pooled_latent self \<theta>w x) (\<lambda>combined_result.
     run_stack \<theta>s (LatentSpacePooledHybridClassifier.stack self) combined_result)"

subsection \<open>The stacks as the specification and as the constructors lay them out\<close>

definition hidden_step :: "nat list \<Rightarrow> nat \<Rightarrow> layer list" where
  \<comment> \<open>\<open>Linear(h_i, h_{i+1}) -> Normalize -> Activation\<close>\<close>
  "hidden_step H i = [Linear (H ! i) (H ! (i + 1)), BatchNorm1d (H ! (i + 1)), ReLU]"

definition spec_mlp :: "nat \<Rightarrow> nat list \<Rightarrow> nat \<Rightarrow> layer list" where
  \<comment> \<open>the stack in the specification's words, before the optional output activation:
      \<open>n + 1\<close> linear layers for \<open>n\<close> hidden widths\<close>
  "spec_mlp input_dim H output_dim =
     [Linear input_dim (hd H), BatchNorm1d (hd H), ReLU]
     @ concat (map (hidden_step H) [0..<length H - 1])
     @ [Linear (last H) output_dim]"

definition built_mlp :: "nat \<Rightarrow> nat list \<Rightarrow> nat \<Rightarrow> layer list" where
  \<comment> \<open>the same with one more block, of width \<open>h_{n-1}\<close> on both sides, before the
      output layer\<close>
  "built_mlp input_dim H output_dim =
     [Linear input_dim (hd H), BatchNorm1d (hd H), ReLU]
     @ concat (map (hidden_step H) [0..<length H - 1])
     @ [Linear (last H) (last H), BatchNorm1d (last H), ReLU]
     @ [Linear (last H) output_dim]"

fun linear_widths :: "layer list \<Rightarrow> (nat \<times> nat) list" where
  \<comment> \<open>the linear layers of a stack, in order\<close>
  "linear_widths [] = []"
| "linear_widths (Linear a b # ls) = (a, b) # linear_widths ls"
| "linear_widths (l # ls) = linear_widths ls"

subsection \<open>Sample sub-networks\<close>

definition const_net :: "nat \<Rightarrow> real \<Rightarrow> net" where
  \<comment> \<open>a network of output width \<open>k\<close> that scores every event \<open>c\<close>\<close>
  "const_net k c x = Inr (map (\<lambda>e. replicate k c) x)"

definition sample_extern :: extern where
  "sample_extern =
     \<lparr> ParticleFlowNetwork = (\<lambda>input_dim total latent cls_dims map_dims. Inr (const_net 1 2)),
       ParticleMapping = (\<lambda>input_dim total latent map_dims. Inr (const_net latent 1)),
       LorenzInvariantNetwork = (\<lambda>output_dim dims. Inr (const_net output_dim 4)) \<rparr>"

subsection \<open>The imported constructors on an empty list of hidden widths\<close>

definition spec_extern :: "extern \<Rightarrow> extern" where
  \<comment> \<open>Modelled from the spec: the constructors of \<^verbatim>\<open>ParticleFlowNetwork\<close>,
      \<^verbatim>\<open>ParticleMapping\<close> and \<^verbatim>\<open>LorenzInvariantNetwork\<close> are not among the sources.
      A hidden-layer-dimension list "must be non-empty for any dynamically built
      stack -- zero length is a construction-time error": each constructor raises
      when a list of hidden widths it receives is empty, and is otherwise the
      given one.\<close>
  "spec_extern ext =
     \<lparr> ParticleFlowNetwork = (\<lambda>input_dim total latent cls_dims map_dims.
         if cls_dims = [] \<or> map_dims = []
         then Inl (ValueError ''hidden layer list must be non-empty'')
         else ParticleFlowNetwork ext input_dim total latent cls_dims map_dims),
       ParticleMapping = (\<lambda>input_dim total latent map_dims.
         if map_dims = []
         then Inl (ValueError ''hidden layer list must be non-empty'')
         else ParticleMapping ext input_dim total latent map_dims),
       LorenzInvariantNetwork = (\<lambda>output_dim dims.
         if dims = []
         then Inl (ValueError ''hidden layer list must be non-empty'')
         else LorenzInvariantNetwork ext output_dim dims) \<rparr>"

subsection \<open>The weighted sum of two latent matrices\<close>

definition weighted_sum :: "mat \<Rightarrow> mat \<Rightarrow> (real \<times> real) list \<Rightarrow> mat" where
  \<comment> \<open>\<open>a * u + b * v\<close> for every event, with its weights \<open>(a, b)\<close>, and every latent
      dimension\<close>
  "weighted_sum g i ws =
     map (\<lambda>((u, v), (a, b)). map (\<lambda>(x, y). a * x + b * y) (zip u v)) (zip (zip g i) ws)"

subsection \<open>Sample learned states\<close>

definition sample_learned :: "nat \<Rightarrow> mat \<Rightarrow> learned" where
  \<comment> \<open>for a stack built from the hidden widths \<open>[4]\<close> whose first linear layer is module
      \<open>k\<close> with weight \<open>W0\<close>: the second linear layer is the identity, the output layer
      returns its bias \<open>(ln 3, 0)\<close>, and every batch normalisation returns its input\<close>
  "sample_learned k W0 =
     \<lparr> linear_weight = (\<lambda>i. if i = k then W0
                            else if i = k + 3 then [[1, 0, 0, 0], [0, 1, 0, 0], [0, 0, 1, 0], [0, 0, 0, 1]]
                            else [[0, 0, 0, 0], [0, 0, 0, 0]]),
       linear_bias = (\<lambda>i. if i = k + 6 then [ln 3, 0] else [0, 0, 0, 0]),
       batch_norm = (\<lambda>i x. Inr x) \<rparr>"

definition sample_module :: LatentSpacePooledHybridClassifier where
  \<comment> \<open>the stacks built from the hidden widths \<open>[4]\<close> for latent dimension 2, with
      sub-networks that return two different latent rows for two events\<close>
  "sample_module =
     \<lparr> general_p_map = (\<lambda>x. Inr [[1, 2], [1, 1]]),
       invariant_p_map = (\<lambda>x. Inr [[10, 20], [2, 2]]),
       weight_network =
         [Linear 1 4, BatchNorm1d 4, ReLU, Linear 4 4, BatchNorm1d 4, ReLU, Linear 4 2, Softmax 1],
       general_classifier_preference = None,
       stack =
         [Linear 2 4, BatchNorm1d 4, ReLU, Linear 4 4, BatchNorm1d 4, ReLU, Linear 4 1] \<rparr>"

definition sample_head :: learned where
  \<comment> \<open>a learned state for the head of \<open>sample_module\<close>: the first layer pads its input
      with zeros, the second is the identity, the output layer adds its four inputs\<close>
  "sample_head =
     \<lparr> linear_weight = (\<lambda>i. if i = 0 then [[1, 0], [0, 1], [0, 0], [0, 0]]
                            else if i = 3 then [[1, 0, 0, 0], [0, 1, 0, 0], [0, 0, 1, 0], [0, 0, 0, 1]]
                            else [[1, 1, 1, 1]]),
       linear_bias = (\<lambda>i. if i = 6 then [0] else [0, 0, 0, 0]),
       batch_norm = (\<lambda>i x. Inr x) \<rparr>"

definition sample_events :: tensor3 where
  "sample_events = [[[3, 4, 0, 5], [1, 2, 2, 3]], [[5, 12, 1, 14], [7, 8, 9, 10]]]"

section \<open>Properties\<close>

subsection \<open>The construction loop and the layout of the stacks\<close>

lemma fold_loop_body:
  "fold (loop_body dims) is acc = acc @ concat (map (\<lambda>i. loop_body dims i []) is)"
  by (induction "is" arbitrary: acc) (simp_all add: loop_body_def)

lemma loop_body_inner:
  "Suc i < length H \<Longrightarrow> loop_body H i [] = hidden_step H i"
  by (auto simp: loop_body_def next_width_def hidden_step_def)

lemma loop_body_last:
  "H \<noteq> [] \<Longrightarrow> loop_body H (length H - 1) [] = [Linear (last H) (last H), BatchNorm1d (last H), ReLU]"
  by (simp add: loop_body_def next_width_def last_conv_nth)

lemma append_hidden_eq:
  assumes "H \<noteq> []"
  shows "append_hidden H acc =
     acc @ concat (map (hidden_step H) [0..<length H - 1])
       @ [Linear (last H) (last H), BatchNorm1d (last H), ReLU]"
proof -
  have idx: "[0..<length H] = [0..<length H - 1] @ [length H - 1]"
    using assms by (cases H rule: rev_cases) simp_all
  have inner: "map (\<lambda>i. loop_body H i []) [0..<length H - 1] = map (hidden_step H) [0..<length H - 1]"
    by (rule map_cong) (auto simp: loop_body_inner)
  have "concat (map (\<lambda>i. loop_body H i []) [0..<length H])
        = concat (map (\<lambda>i. loop_body H i []) [0..<length H - 1]) @ loop_body H (length H - 1) []"
    by (subst idx) (simp del: upt_Suc)
  then show ?thesis
    unfolding append_hidden_def fold_loop_body inner loop_body_last[OF assms] by simp
qed

lemma py_index_first: "H \<noteq> [] \<Longrightarrow> py_index H 0 = Inr (hd H)"
  by (cases H) (simp_all add: py_index_def)

lemma py_index_last: "H \<noteq> [] \<Longrightarrow> py_index H (- 1) = Inr (last H)"
  by (cases H rule: rev_cases) (simp_all add: py_index_def)

lemma py_index_empty: "py_index [] i = Inl IndexError"
  by (simp add: py_index_def)

lemma linear_widths_append: "linear_widths (xs @ ys) = linear_widths xs @ linear_widths ys"
  by (induction xs rule: linear_widths.induct) simp_all

lemma linear_widths_steps:
  "linear_widths (concat (map (hidden_step H) is)) = map (\<lambda>i. (H ! i, H ! (i + 1))) is"
  by (induction "is") (simp_all add: hidden_step_def linear_widths_append)

lemma linear_widths_built:
  "linear_widths (built_mlp d H out) = (d, hd H) # map (\<lambda>i. (H ! i, H ! (i + 1))) [0..<length H - 1] @ [(last H, last H), (last H, out)]"
  by (simp add: built_mlp_def linear_widths_append linear_widths_steps)


lemma and_then_Inr [simp]: "and_then (Inr v) f = f v"
  by (simp add: and_then_def)

lemma and_then_Inl [simp]: "and_then (Inl e) f = Inl e"
  by (simp add: and_then_def)

lemma and_then_eq_Inr: "and_then r f = Inr y \<longleftrightarrow> (\<exists>v. r = Inr v \<and> f v = Inr y)"
  by (cases r) simp_all

lemma learned_init_stack:
  assumes "LearnedWeightHybridClassifier_init ext d pm pc li H = Inr M"
  shows "H \<noteq> []" and "snd (LearnedWeightHybridClassifier.stack M) = built_mlp d H 2 @ [Softmax 1]"
proof -
  show ne: "H \<noteq> []"
    using assms by (auto simp: LearnedWeightHybridClassifier_init_def and_then_eq_Inr)
  show "snd (LearnedWeightHybridClassifier.stack M) = built_mlp d H 2 @ [Softmax 1]"
    using assms ne
    by (auto simp: LearnedWeightHybridClassifier_init_def and_then_eq_Inr py_index_first
          py_index_last append_hidden_eq built_mlp_def)
qed

lemma pooled_init_stacks:
  assumes "LatentSpacePooledHybridClassifier_init ext d pm li Hw Hc pref = Inr M"
  shows "Hw \<noteq> []" and "Hc \<noteq> []"
    and "weight_network M = built_mlp 1 Hw 2 @ [Softmax 1]"
    and "LatentSpacePooledHybridClassifier.stack M = built_mlp d Hc 1"
    and "general_classifier_preference M = pref"
proof -
  show ne: "Hw \<noteq> []"
    using assms by (auto simp: LatentSpacePooledHybridClassifier_init_def and_then_eq_Inr)
  show nc: "Hc \<noteq> []"
    using assms ne
    by (auto simp: LatentSpacePooledHybridClassifier_init_def and_then_eq_Inr py_index_first
          py_index_empty)
  show "weight_network M = built_mlp 1 Hw 2 @ [Softmax 1]"
    using assms ne nc
    by (auto simp: LatentSpacePooledHybridClassifier_init_def and_then_eq_Inr py_index_first
          py_index_last append_hidden_eq built_mlp_def)
  show "LatentSpacePooledHybridClassifier.stack M = built_mlp d Hc 1"
    using assms ne nc
    by (auto simp: LatentSpacePooledHybridClassifier_init_def and_then_eq_Inr py_index_first
          py_index_last append_hidden_eq built_mlp_def)
  show "general_classifier_preference M = pref"
    using assms ne nc
    by (auto simp: LatentSpacePooledHybridClassifier_init_def and_then_eq_Inr py_index_first
          py_index_last)
qed

text \<open>
  C1, as amended. Whenever a constructor returns, the gate of
  \<^verbatim>\<open>LearnedWeightHybridClassifier\<close> and the weight network and the classifier head
  of \<^verbatim>\<open>LatentSpacePooledHybridClassifier\<close> are the layers of \<open>built_mlp\<close>
  (followed by the softmax for the two gates): the first block, one block for each pair
  of consecutive hidden widths, one more block of width \<open>h_{n-1}\<close> on both sides, and
  the output layer. For \<open>n\<close> hidden widths that is \<open>n + 2\<close> linear layers.
\<close>

theorem built_stack_layout:
  "(LearnedWeightHybridClassifier_init ext d pm pc li H = Inr M \<longrightarrow>
      snd (LearnedWeightHybridClassifier.stack M) = built_mlp d H 2 @ [Softmax 1]
      \<and> length (linear_widths (snd (LearnedWeightHybridClassifier.stack M))) = length H + 2)
   \<and> (LatentSpacePooledHybridClassifier_init ext d pm li Hw Hc pref = Inr M' \<longrightarrow>
      weight_network M' = built_mlp 1 Hw 2 @ [Softmax 1]
      \<and> length (linear_widths (weight_network M')) = length Hw + 2
      \<and> LatentSpacePooledHybridClassifier.stack M' = built_mlp d Hc 1
      \<and> length (linear_widths (LatentSpacePooledHybridClassifier.stack M')) = length Hc + 2)
   \<and> linear_widths (built_mlp d H out) =
        (d, hd H) # map (\<lambda>i. (H ! i, H ! (i + 1))) [0..<length H - 1]
          @ [(last H, last H), (last H, out)]"
proof (intro conjI impI)
  assume a: "LearnedWeightHybridClassifier_init ext d pm pc li H = Inr M"
  show "snd (LearnedWeightHybridClassifier.stack M) = built_mlp d H 2 @ [Softmax 1]"
    by (rule learned_init_stack(2)[OF a])
  then show "length (linear_widths (snd (LearnedWeightHybridClassifier.stack M))) = length H + 2"
    using learned_init_stack(1)[OF a]
    by (simp add: linear_widths_append linear_widths_built)
next
  assume a: "LatentSpacePooledHybridClassifier_init ext d pm li Hw Hc pref = Inr M'"
  show "weight_network M' = built_mlp 1 Hw 2 @ [Softmax 1]"
    by (rule pooled_init_stacks(3)[OF a])
  then show "length (linear_widths (weight_network M')) = length Hw + 2"
    using pooled_init_stacks(1)[OF a]
    by (simp add: linear_widths_append linear_widths_built)
  show "LatentSpacePooledHybridClassifier.stack M' = built_mlp d Hc 1"
    by (rule pooled_init_stacks(4)[OF a])
  then show "length (linear_widths (LatentSpacePooledHybridClassifier.stack M')) = length Hc + 2"
    using pooled_init_stacks(2)[OF a]
    by (simp add: linear_widths_append linear_widths_built)
next
  show "linear_widths (built_mlp d H out) =
        (d, hd H) # map (\<lambda>i. (H ! i, H ! (i + 1))) [0..<length H - 1]
          @ [(last H, last H), (last H, out)]"
    by (rule linear_widths_built)
qed

lemma sample_learned_init:
  "LearnedWeightHybridClassifier_init sample_extern 2 [4] [4] [4] [4, 5] =
     Inr \<lparr> LearnedWeightHybridClassifier.general_p_map = const_net 1 2,
           LearnedWeightHybridClassifier.invariant_p_map = const_net 1 4,
           LearnedWeightHybridClassifier.stack = (const_net 2 1,
             [Linear 2 4, BatchNorm1d 4, ReLU, Linear 4 5, BatchNorm1d 5, ReLU,
              Linear 5 5, BatchNorm1d 5, ReLU, Linear 5 2, Softmax 1]) \<rparr>"
  by (simp add: LearnedWeightHybridClassifier_init_def sample_extern_def py_index_def
        append_hidden_def loop_body_def next_width_def)

lemma sample_pooled_init:
  "LatentSpacePooledHybridClassifier_init sample_extern 2 [4] [4] [4] [4] pref =
     Inr \<lparr> general_p_map = const_net 2 1, invariant_p_map = const_net 2 4,
           weight_network =
             [Linear 1 4, BatchNorm1d 4, ReLU, Linear 4 4, BatchNorm1d 4, ReLU,
              Linear 4 2, Softmax 1],
           general_classifier_preference = pref,
           stack =
             [Linear 2 4, BatchNorm1d 4, ReLU, Linear 4 4, BatchNorm1d 4, ReLU,
              Linear 4 1] \<rparr>"
  by (simp add: LatentSpacePooledHybridClassifier_init_def sample_extern_def py_index_def
        append_hidden_def loop_body_def next_width_def)

text \<open>
  The layout at the constructions of \<open>sample_learned_init\<close> and
  \<open>sample_pooled_init\<close>, with hidden widths \<open>[4, 5]\<close> and \<open>[4]\<close>.
\<close>

theorem built_stack_layout_witness:
  "length (linear_widths (snd (LearnedWeightHybridClassifier.stack
      \<lparr> LearnedWeightHybridClassifier.general_p_map = const_net 1 2,
        LearnedWeightHybridClassifier.invariant_p_map = const_net 1 4,
        LearnedWeightHybridClassifier.stack = (const_net 2 1,
          [Linear 2 4, BatchNorm1d 4, ReLU, Linear 4 5, BatchNorm1d 5, ReLU,
           Linear 5 5, BatchNorm1d 5, ReLU, Linear 5 2, Softmax 1]) \<rparr>))) = 4
   \<and> built_mlp 1 [4] 2 @ [Softmax 1] =
       [Linear 1 4, BatchNorm1d 4, ReLU, Linear 4 4, BatchNorm1d 4, ReLU, Linear 4 2, Softmax 1]
   \<and> built_mlp 2 [4] 1 =
       [Linear 2 4, BatchNorm1d 4, ReLU, Linear 4 4, BatchNorm1d 4, ReLU, Linear 4 1]
   \<and> linear_widths (built_mlp 2 [4, 5] 2) = [(2, 4), (4, 5), (5, 5), (5, 2)]"
proof -
  let ?M = "\<lparr> LearnedWeightHybridClassifier.general_p_map = const_net 1 2,
        LearnedWeightHybridClassifier.invariant_p_map = const_net 1 4,
        LearnedWeightHybridClassifier.stack = (const_net 2 1,
          [Linear 2 4, BatchNorm1d 4, ReLU, Linear 4 5, BatchNorm1d 5, ReLU,
           Linear 5 5, BatchNorm1d 5, ReLU, Linear 5 2, Softmax 1]) \<rparr>"
  let ?M' = "\<lparr> general_p_map = const_net 2 1, invariant_p_map = const_net 2 4,
        weight_network =
          [Linear 1 4, BatchNorm1d 4, ReLU, Linear 4 4, BatchNorm1d 4, ReLU,
           Linear 4 2, Softmax 1],
        general_classifier_preference = None,
        stack =
          [Linear 2 4, BatchNorm1d 4, ReLU, Linear 4 4, BatchNorm1d 4, ReLU,
           Linear 4 1] \<rparr>"
  have a: "LearnedWeightHybridClassifier_init sample_extern 2 [4] [4] [4] [4, 5] = Inr ?M"
    by (rule sample_learned_init)
  have b: "LatentSpacePooledHybridClassifier_init sample_extern 2 [4] [4] [4] [4] None = Inr ?M'"
    by (rule sample_pooled_init)
  from built_stack_layout [of sample_extern 2 "[4]" "[4]" "[4]" "[4, 5]" ?M "[4]" "[4]" None ?M' 2]
    a b
  show ?thesis by simp
qed

text \<open>
  C1 as stated fails for the single hidden width \<open>[4]\<close>: both stacks of the pooled
  classifier hold three linear layers, and differ from the stack of the specification,
  which holds two.
\<close>

theorem spec_layout_counterexample:
  "LatentSpacePooledHybridClassifier_init sample_extern 2 [4] [4] [4] [4] None =
     Inr \<lparr> general_p_map = const_net 2 1, invariant_p_map = const_net 2 4,
           weight_network =
             [Linear 1 4, BatchNorm1d 4, ReLU, Linear 4 4, BatchNorm1d 4, ReLU,
              Linear 4 2, Softmax 1],
           general_classifier_preference = None,
           stack =
             [Linear 2 4, BatchNorm1d 4, ReLU, Linear 4 4, BatchNorm1d 4, ReLU,
              Linear 4 1] \<rparr>
   \<and> [Linear 1 4, BatchNorm1d 4, ReLU, Linear 4 4, BatchNorm1d 4, ReLU, Linear 4 2, Softmax 1]
       \<noteq> spec_mlp 1 [4] 2 @ [Softmax 1]
   \<and> [Linear 2 4, BatchNorm1d 4, ReLU, Linear 4 4, BatchNorm1d 4, ReLU, Linear 4 1]
       \<noteq> spec_mlp 2 [4] 1
   \<and> length (linear_widths
        [Linear 1 4, BatchNorm1d 4, ReLU, Linear 4 4, BatchNorm1d 4, ReLU, Linear 4 2, Softmax 1])
       \<noteq> length [4 :: nat] + 1"
  by (simp add: sample_pooled_init spec_mlp_def)

subsection \<open>Errors raised by the constructors\<close>

lemma isl_and_then: "isl (and_then r f) \<longleftrightarrow> isl r \<or> isl (f (projr r))"
  by (cases r) simp_all

text \<open>
  C7. An empty list of hidden widths makes the constructor raise, so that no module
  is returned and no forward pass can follow. For the three stacks that
  \<^verbatim>\<open>models.py\<close> builds itself (the gate of \<^verbatim>\<open>LearnedWeightHybridClassifier\<close>, the
  weight network and the classifier head of \<^verbatim>\<open>LatentSpacePooledHybridClassifier\<close>)
  this holds whatever the other arguments are and whatever the imported constructors
  do. For the lists that the three classifiers, \<^verbatim>\<open>WeightedHybridClassifier\<close> among
  them, hand to the imported constructors it holds with the constructors of
  \<open>spec_extern\<close>.
\<close>

theorem empty_hidden_list_raises:
  "isl (LearnedWeightHybridClassifier_init ext d pm pc li [])
   \<and> isl (LatentSpacePooledHybridClassifier_init ext d pm li [] Hc pref)
   \<and> isl (LatentSpacePooledHybridClassifier_init ext d pm li Hw [] pref)
   \<and> (pm = [] \<or> pc = [] \<or> li = [] \<longrightarrow>
        isl (WeightedHybridClassifier_init (spec_extern ext) w d pm pc li)
      \<and> isl (LearnedWeightHybridClassifier_init (spec_extern ext) d pm pc li H))
   \<and> (pm = [] \<or> li = [] \<longrightarrow>
        isl (LatentSpacePooledHybridClassifier_init (spec_extern ext) d pm li Hw Hc pref))"
proof (intro conjI impI)
  show "isl (LearnedWeightHybridClassifier_init ext d pm pc li [])"
    by (simp add: LearnedWeightHybridClassifier_init_def isl_and_then)
  show "isl (LatentSpacePooledHybridClassifier_init ext d pm li [] Hc pref)"
    by (simp add: LatentSpacePooledHybridClassifier_init_def isl_and_then)
  show "isl (LatentSpacePooledHybridClassifier_init ext d pm li Hw [] pref)"
    by (simp add: LatentSpacePooledHybridClassifier_init_def isl_and_then py_index_empty Let_def)
next
  assume e: "pm = [] \<or> pc = [] \<or> li = []"
  then have "isl (ParticleFlowNetwork (spec_extern ext) 4 8 d pc pm)
      \<or> isl (LorenzInvariantNetwork (spec_extern ext) 1 li)"
    by (auto simp: spec_extern_def)
  then show "isl (WeightedHybridClassifier_init (spec_extern ext) w d pm pc li)"
    and "isl (LearnedWeightHybridClassifier_init (spec_extern ext) d pm pc li H)"
    by (auto simp: WeightedHybridClassifier_init_def LearnedWeightHybridClassifier_init_def
          isl_and_then)
next
  assume "pm = [] \<or> li = []"
  then have "isl (ParticleMapping (spec_extern ext) 4 8 d pm)
      \<or> isl (LorenzInvariantNetwork (spec_extern ext) d li)"
    by (auto simp: spec_extern_def)
  then show "isl (LatentSpacePooledHybridClassifier_init (spec_extern ext) d pm li Hw Hc pref)"
    by (auto simp: LatentSpacePooledHybridClassifier_init_def isl_and_then)
qed

text \<open>
  With an empty \<^verbatim>\<open>pfn_mapping_hidden_layer_dimensions\<close> all three constructors
  raise; with the hidden widths \<open>[4]\<close> throughout, the same imported constructors
  let \<^verbatim>\<open>WeightedHybridClassifier\<close> construct.
\<close>

theorem empty_hidden_list_raises_witness:
  "isl (WeightedHybridClassifier_init (spec_extern sample_extern) (1 / 2) 2 [] [4] [4])
   \<and> isl (LearnedWeightHybridClassifier_init (spec_extern sample_extern) 2 [] [4] [4] [4])
   \<and> isl (LatentSpacePooledHybridClassifier_init (spec_extern sample_extern) 2 [] [4] [4] [4] None)
   \<and> \<not> isl (WeightedHybridClassifier_init (spec_extern sample_extern) (1 / 2) 2 [4] [4] [4])"
proof -
  have "\<not> isl (WeightedHybridClassifier_init (spec_extern sample_extern) (1 / 2) 2 [4] [4] [4])"
    by (simp add: WeightedHybridClassifier_init_def spec_extern_def sample_extern_def)
  with empty_hidden_list_raises [where ext = sample_extern and d = 2 and pm = "[]" and pc = "[4]"
      and li = "[4]" and H = "[4]" and Hw = "[4]" and Hc = "[4]" and pref = None and w = "1 / 2"]
  show ?thesis by simp
qed

text \<open>
  Which error it is, when the imported constructors return: the guard's
  \<^verbatim>\<open>ValueError\<close> for the two weight networks, the \<^verbatim>\<open>IndexError\<close> of
  \<^verbatim>\<open>classifier_hidden_layer_dimensions[0]\<close> for the classifier head.
\<close>

lemma empty_hidden_list_errors:
  assumes "ParticleFlowNetwork ext 4 8 d pc pm = Inr gp" "LorenzInvariantNetwork ext 1 li = Inr ip"
    and "ParticleMapping ext 4 8 d pm = Inr gm" "LorenzInvariantNetwork ext d li = Inr im"
  shows "LearnedWeightHybridClassifier_init ext d pm pc li [] =
           Inl (ValueError ''Length of weight_network_hidden_layer_dimensions cannot be zero.'')"
    and "LatentSpacePooledHybridClassifier_init ext d pm li [] Hc pref =
           Inl (ValueError ''Length of weight_network_hidden_layer_dimensions cannot be zero.'')"
    and "Hw \<noteq> [] \<Longrightarrow> LatentSpacePooledHybridClassifier_init ext d pm li Hw [] pref = Inl IndexError"
  using assms
  by (simp_all add: LearnedWeightHybridClassifier_init_def
        LatentSpacePooledHybridClassifier_init_def py_index_first py_index_last py_index_empty
        Let_def)

text \<open>
  C8. \<^verbatim>\<open>LatentSpacePooledHybridClassifier\<close> is constructed with the preference
  \<open>3/2\<close>, outside \<open>[0, 1]\<close>: the constructor returns a module that stores it,
  where \<^verbatim>\<open>WeightedHybridClassifier\<close> raises for the weight \<open>3/2\<close>.
\<close>

theorem preference_not_validated:
  "LatentSpacePooledHybridClassifier_init sample_extern 2 [4] [4] [4] [4] (Some (3 / 2)) =
     Inr \<lparr> general_p_map = const_net 2 1, invariant_p_map = const_net 2 4,
           weight_network =
             [Linear 1 4, BatchNorm1d 4, ReLU, Linear 4 4, BatchNorm1d 4, ReLU,
              Linear 4 2, Softmax 1],
           general_classifier_preference = Some (3 / 2),
           stack =
             [Linear 2 4, BatchNorm1d 4, ReLU, Linear 4 4, BatchNorm1d 4, ReLU,
              Linear 4 1] \<rparr>
   \<and> WeightedHybridClassifier_init sample_extern (3 / 2) 2 [4] [4] [4] =
     Inl (ValueError ''Classifier weights must be between 0 and 1.'')"
proof
  show "LatentSpacePooledHybridClassifier_init sample_extern 2 [4] [4] [4] [4] (Some (3 / 2)) =
     Inr \<lparr> general_p_map = const_net 2 1, invariant_p_map = const_net 2 4,
           weight_network =
             [Linear 1 4, BatchNorm1d 4, ReLU, Linear 4 4, BatchNorm1d 4, ReLU,
              Linear 4 2, Softmax 1],
           general_classifier_preference = Some (3 / 2),
           stack =
             [Linear 2 4, BatchNorm1d 4, ReLU, Linear 4 4, BatchNorm1d 4, ReLU,
              Linear 4 1] \<rparr>"
    by (rule sample_pooled_init)
  show "WeightedHybridClassifier_init sample_extern (3 / 2) 2 [4] [4] [4] =
     Inl (ValueError ''Classifier weights must be between 0 and 1.'')"
    by (simp add: WeightedHybridClassifier_init_def sample_extern_def)
qed

text \<open>The constructor never looks at the preference.\<close>

lemma preference_any:
  assumes "ParticleMapping ext 4 8 d pm = Inr gm" "LorenzInvariantNetwork ext d li = Inr im"
    and "Hw \<noteq> []" "Hc \<noteq> []"
  shows "\<exists>M. LatentSpacePooledHybridClassifier_init ext d pm li Hw Hc pref = Inr M \<and> general_classifier_preference M = pref"
  using assms
  by (simp add: LatentSpacePooledHybridClassifier_init_def py_index_first py_index_last Let_def)


subsection \<open>The weighted classifier\<close>

lemma each_Inr: "(\<And>x. x \<in> set xs \<Longrightarrow> f x = Inr (g x)) \<Longrightarrow> each f xs = Inr (map g xs)"
  by (induction xs) simp_all

lemma broadcast_same:
  assumes "length xs = length ys"
    and "\<And>x y. (x, y) \<in> set (zip xs ys) \<Longrightarrow> f x y = Inr (g x y)"
  shows "broadcast f xs ys = Inr (map (\<lambda>(x, y). g x y) (zip xs ys))"
proof -
  have "each (\<lambda>(x, y). f x y) (zip xs ys) = Inr (map (\<lambda>(x, y). g x y) (zip xs ys))"
    by (rule each_Inr) (use assms(2) in auto)
  with assms(1) show ?thesis by (simp add: broadcast_def)
qed

lemma torch_add1_same:
  "length u = length v \<Longrightarrow> torch_add1 u v = Inr (map (\<lambda>(a, b). a + b) (zip u v))"
  unfolding torch_add1_def by (rule broadcast_same) simp_all

lemma torch_add2_same:
  assumes "list_all2 (\<lambda>u v. length u = length v) G I"
  shows "torch_add2 G I = Inr (map (\<lambda>(u, v). map (\<lambda>(a, b). a + b) (zip u v)) (zip G I))"
  unfolding torch_add2_def
proof (rule broadcast_same)
  show "length G = length I" using assms by (rule list_all2_lengthD)
next
  fix u v assume "(u, v) \<in> set (zip G I)"
  with assms have "length u = length v"
    by (auto simp: list_all2_iff)
  then show "torch_add1 u v = Inr (map (\<lambda>(a, b). a + b) (zip u v))"
    by (rule torch_add1_same)
qed

lemma weighted_forward:
  assumes "gp x = Inr G" "ip x = Inr I" "list_all2 (\<lambda>u v. length u = length v) G I"
  shows "WeightedHybridClassifier_forward
           \<lparr> WeightedHybridClassifier.general_p_map = gp,
             WeightedHybridClassifier.invariant_p_map = ip,
             invariant_network_weight = w, general_network_weight = 1 - w \<rparr> x =
         Inr (map2 (map2 (\<lambda>g i. (1 - w) * g + w * i)) G I)"
proof -
  have sh: "list_all2 (\<lambda>u v. length u = length v) (scalar_mul2 G (1 - w)) (scalar_mul2 I w)"
    using assms(3) by (simp add: scalar_mul2_def list_all2_map1 list_all2_map2)
  have "map (\<lambda>(u, v). map (\<lambda>(a, b). a + b) (zip u v)) (zip (scalar_mul2 G (1 - w)) (scalar_mul2 I w))
        = map2 (map2 (\<lambda>g i. (1 - w) * g + w * i)) G I"
    by (simp add: scalar_mul2_def zip_map_map case_prod_unfold mult.commute)
  with torch_add2_same[OF sh] show ?thesis
    using assms(1,2) by (simp add: WeightedHybridClassifier_forward_def)
qed

text \<open>
  C5. For a weight \<open>w\<close> in \<open>[0, 1]\<close>, and sub-networks that construct, the
  constructor returns a module whose general weight is \<open>1 - w\<close> and whose forward
  pass is, entry by entry, \<open>(1 - w) * general + w * invariant\<close> of the two
  sub-network outputs (of one shape). For \<open>w < 0\<close> or \<open>1 < w\<close> the constructor
  raises.
\<close>

theorem weighted_convex_combination:
  "(0 \<le> w \<and> w \<le> 1 \<and> ParticleFlowNetwork ext 4 8 d pc pm = Inr gp
      \<and> LorenzInvariantNetwork ext 1 li = Inr ip \<longrightarrow>
      (\<exists>M. WeightedHybridClassifier_init ext w d pm pc li = Inr M
         \<and> general_network_weight M = 1 - w
         \<and> (\<forall>x G I. gp x = Inr G \<and> ip x = Inr I
               \<and> list_all2 (\<lambda>u v. length u = length v) G I \<longrightarrow>
             WeightedHybridClassifier_forward M x =
               Inr (map2 (map2 (\<lambda>g i. (1 - w) * g + w * i)) G I))))
   \<and> (w < 0 \<or> 1 < w \<longrightarrow> isl (WeightedHybridClassifier_init ext w d pm pc li))"
proof (intro conjI impI)
  assume a: "0 \<le> w \<and> w \<le> 1 \<and> ParticleFlowNetwork ext 4 8 d pc pm = Inr gp
      \<and> LorenzInvariantNetwork ext 1 li = Inr ip"
  let ?M = "\<lparr> WeightedHybridClassifier.general_p_map = gp,
             WeightedHybridClassifier.invariant_p_map = ip,
             invariant_network_weight = w, general_network_weight = 1 - w \<rparr>"
  have "WeightedHybridClassifier_init ext w d pm pc li = Inr ?M"
    using a by (simp add: WeightedHybridClassifier_init_def)
  moreover have "general_network_weight ?M = 1 - w" by simp
  moreover have "\<forall>x G I. gp x = Inr G \<and> ip x = Inr I
               \<and> list_all2 (\<lambda>u v. length u = length v) G I \<longrightarrow>
             WeightedHybridClassifier_forward ?M x =
               Inr (map2 (map2 (\<lambda>g i. (1 - w) * g + w * i)) G I)"
    by (intro allI impI) (rule weighted_forward, simp_all)
  ultimately show "\<exists>M. WeightedHybridClassifier_init ext w d pm pc li = Inr M
         \<and> general_network_weight M = 1 - w
         \<and> (\<forall>x G I. gp x = Inr G \<and> ip x = Inr I
               \<and> list_all2 (\<lambda>u v. length u = length v) G I \<longrightarrow>
             WeightedHybridClassifier_forward M x =
               Inr (map2 (map2 (\<lambda>g i. (1 - w) * g + w * i)) G I))"
    by blast
next
  assume "w < 0 \<or> 1 < w"
  then show "isl (WeightedHybridClassifier_init ext w d pm pc li)"
    by (auto simp: WeightedHybridClassifier_init_def isl_and_then)
qed

text \<open>
  With weight \<open>1/4\<close> and sub-networks scoring \<open>2\<close> and \<open>4\<close> the output is
  \<open>3/4 * 2 + 1/4 * 4 = 5/2\<close>; the weight \<open>3/2\<close> is refused.
\<close>

theorem weighted_convex_combination_witness:
  "WeightedHybridClassifier_forward
      (projr (WeightedHybridClassifier_init sample_extern (1 / 4) 2 [4] [4] [4]))
      [[[3, 4, 0, 5], [1, 2, 2, 3]]] = Inr [[5 / 2]]
   \<and> general_network_weight
       (projr (WeightedHybridClassifier_init sample_extern (1 / 4) 2 [4] [4] [4])) = 3 / 4
   \<and> isl (WeightedHybridClassifier_init sample_extern (3 / 2) 2 [4] [4] [4])"
proof -
  let ?x = "[[[3, 4, 0, 5], [1, 2, 2, 3]]] :: tensor3"
  have h: "0 \<le> (1 / 4 :: real) \<and> (1 / 4 :: real) \<le> 1
      \<and> ParticleFlowNetwork sample_extern 4 8 2 [4] [4] = Inr (const_net 1 2)
      \<and> LorenzInvariantNetwork sample_extern 1 [4] = Inr (const_net 1 4)"
    by (simp add: sample_extern_def)
  from weighted_convex_combination [of "1 / 4" sample_extern 2 "[4]" "[4]" "const_net 1 2" "[4]"
      "const_net 1 4"] h
  obtain M where M: "WeightedHybridClassifier_init sample_extern (1 / 4) 2 [4] [4] [4] = Inr M"
    and gw: "general_network_weight M = 1 - 1 / 4"
    and fw: "\<And>x G I. const_net 1 2 x = Inr G \<and> const_net 1 4 x = Inr I
               \<and> list_all2 (\<lambda>u v. length u = length v) G I \<Longrightarrow>
             WeightedHybridClassifier_forward M x =
               Inr (map2 (map2 (\<lambda>g i. (1 - 1 / 4) * g + 1 / 4 * i)) G I)"
    by blast
  have "WeightedHybridClassifier_forward M ?x = Inr [[5 / 2]]"
    using fw [of ?x "[[2]]" "[[4]]"] by (simp add: const_net_def)
  moreover have "isl (WeightedHybridClassifier_init sample_extern (3 / 2) 2 [4] [4] [4])"
    using weighted_convex_combination [of "3 / 2" sample_extern 2 "[4]" "[4]" "const_net 1 2" "[4]"
      "const_net 1 4"] by simp
  ultimately show ?thesis using M gw by simp
qed

subsection \<open>Transverse momentum\<close>

lemma index_last2_ok:
  "list_all (\<lambda>r. k < length r) t \<Longrightarrow> index_last2 t k = Inr (map (\<lambda>r. r ! k) t)"
  unfolding index_last2_def
  by (rule each_Inr) (simp add: index_last1_def list_all_iff)

lemma index_last3_ok:
  "list_all (list_all (\<lambda>r. k < length r)) t \<Longrightarrow>
     index_last3 t k = Inr (map (map (\<lambda>r. r ! k)) t)"
  unfolding index_last3_def
  by (rule each_Inr) (simp add: index_last2_ok list_all_iff)

lemma sqrt_of_square: "0 \<le> c \<Longrightarrow> a = c ^ 2 \<Longrightarrow> sqrt a = c"
  by simp

text \<open>
  C4. On an input of shape \<open>[batch, 2, 4]\<close> the transverse momentum is, for every
  event \<open>e\<close>, the one-entry row \<open>sqrt (e[0][0]^2 + e[0][1]^2)\<close>: only the first two
  features of particle 0 are read.
\<close>

theorem transverse_momentum_slot0:
  assumes "list_all (\<lambda>e. length e = 2 \<and> list_all (\<lambda>p. length p = 4) e) x"
  shows "transverse_momentum x = Inr (map (\<lambda>e. [sqrt ((e ! 0 ! 0) ^ 2 + (e ! 0 ! 1) ^ 2)]) x)"
proof -
  have f0: "list_all (list_all (\<lambda>r. 0 < length r)) x"
    and f1: "list_all (list_all (\<lambda>r. 1 < length r)) x"
    and p0: "list_all (\<lambda>e. 0 < length e) x"
    using assms by (fastforce simp: list_all_iff)+
  have a: "index_last3 x 0 = Inr (map (map (\<lambda>r. r ! 0)) x)"
    by (rule index_last3_ok[OF f0])
  have b: "index_last3 x 1 = Inr (map (map (\<lambda>r. r ! 1)) x)"
    by (rule index_last3_ok[OF f1])
  have a0: "index_last2 (map (map (\<lambda>r. r ! 0)) x) 0 = Inr (map (\<lambda>e. e ! 0 ! 0) x)"
    using p0 by (subst index_last2_ok) (auto simp: list_all_iff o_def)
  have b0: "index_last2 (map (map (\<lambda>r. r ! 1)) x) 0 = Inr (map (\<lambda>e. e ! 0 ! 1) x)"
    using p0 by (subst index_last2_ok) (auto simp: list_all_iff o_def)
  have s: "torch_add1 (torch_pow (map (\<lambda>e. e ! 0 ! 0) x) 2) (torch_pow (map (\<lambda>e. e ! 0 ! 1) x) 2)
      = Inr (map (\<lambda>e. (e ! 0 ! 0) ^ 2 + (e ! 0 ! 1) ^ 2) x)"
    by (subst torch_add1_same) (simp_all add: torch_pow_def zip_map_map o_def zip_same_conv_map)
  show ?thesis
    unfolding transverse_momentum_def a b and_then_Inr a0 b0 s
    by (simp add: unsqueeze1_def torch_sqrt_def o_def)
qed

text \<open>
  Two events with \<open>(px, py)\<close> of particle 0 equal to \<open>(3, 4)\<close> and \<open>(5, 12)\<close>, and
  other values in particle 1: the momenta are \<open>5\<close> and \<open>13\<close>.
\<close>

theorem transverse_momentum_slot0_witness:
  "transverse_momentum [[[3, 4, 0, 5], [1, 2, 2, 3]], [[5, 12, 1, 14], [7, 8, 9, 10]]] =
     Inr [[5], [13]]"
proof -
  have r1: "sqrt (25 :: real) = 5" by (rule sqrt_of_square) simp_all
  have r2: "sqrt (169 :: real) = 13" by (rule sqrt_of_square) simp_all
  show ?thesis
    using transverse_momentum_slot0
      [of "[[[3, 4, 0, 5], [1, 2, 2, 3]], [[5, 12, 1, 14], [7, 8, 9, 10]]]"]
    by (simp add: r1 r2)
qed

subsection \<open>The preference skew\<close>

lemma broadcast_one:
  assumes "\<And>x. x \<in> set xs \<Longrightarrow> f x y = Inr (g x)"
  shows "broadcast f xs [y] = Inr (map g xs)"
proof (cases "length xs = 1")
  case True
  then obtain x where xs: "xs = [x]" by (cases xs) auto
  with assms show ?thesis by (simp add: broadcast_def)
next
  case False
  have "each (\<lambda>x. f x y) xs = Inr (map g xs)"
    by (rule each_Inr) (rule assms)
  with False show ?thesis by (simp add: broadcast_def)
qed

lemma torch_mul2_pair:
  "torch_mul2 [[g], [i]] [[c], [c']] = Inr [[g * c], [i * c']]"
  by (simp add: torch_mul2_def broadcast_def)

lemma torch_add2_pair:
  "torch_add2 [[g], [i]] [[c], [c']] = Inr [[g + c], [i + c']]"
  by (simp add: torch_add2_def torch_add1_def broadcast_def)

lemma apply_preference_pairs:
  "apply_preference (Some p) (map (\<lambda>(g, i). [[g], [i]]) ws) =
     Inr (map (\<lambda>(g, i). [[(1 - p) * g + p], [(1 - p) * i]]) ws)"
proof -
  have m: "torch_mul3 (map (\<lambda>(g, i). [[g], [i]]) ws) [[[1 - p], [1 - p]]] =
      Inr (map (\<lambda>(g, i). [[g * (1 - p)], [i * (1 - p)]]) ws)"
    unfolding torch_mul3_def
    by (subst broadcast_one [where g = "\<lambda>m. [[hd (m ! 0) * (1 - p)], [hd (m ! 1) * (1 - p)]]"])
      (auto simp: torch_mul2_pair)
  have a: "torch_add3 (map (\<lambda>(g, i). [[g * (1 - p)], [i * (1 - p)]]) ws) [[[p], [0]]] =
      Inr (map (\<lambda>(g, i). [[(1 - p) * g + p], [(1 - p) * i]]) ws)"
    unfolding torch_add3_def
    by (subst broadcast_one [where g = "\<lambda>m. [[hd (m ! 0) + p], [hd (m ! 1)]]"])
      (auto simp: torch_add2_pair mult.commute)
  show ?thesis
    by (simp add: apply_preference_def m a)
qed

lemma pairs_concat:
  "list_all (\<lambda>r. length r = 2) W \<Longrightarrow> pairs (concat W) = map (\<lambda>r. [[r ! 0], [r ! 1]]) W"
proof (induction W)
  case Nil
  show ?case by simp
next
  case (Cons r W)
  then obtain a b where "r = [a, b]"
    by (cases r; cases "tl r"; cases "tl (tl r)") auto
  with Cons show ?case by simp
qed

lemma reshape_2_1_rows:
  assumes "list_all (\<lambda>r. length r = 2) W"
  shows "reshape_2_1 W = Inr (map (\<lambda>r. [[r ! 0], [r ! 1]]) W)"
proof -
  have "length (concat W) = 2 * length W"
    using assms by (induction W) simp_all
  then show ?thesis
    by (simp add: reshape_2_1_def pairs_concat [OF assms])
qed

text \<open>
  C2. In the forward pass, with the weight network returning the rows
  \<open>(w_general, w_invariant)\<close>, the pool weights of every event are
  \<open>(1 - p) * w_general + p\<close> and \<open>(1 - p) * w_invariant\<close> when the preference
  \<open>p\<close> is set, and the two entries of the row unchanged when it is \<open>None\<close>.
\<close>

theorem preference_skew_formula:
  assumes "transverse_momentum x = Inr pT"
    and "sequential_forward \<theta>w 0 (weight_network self) pT = Inr W"
    and "list_all (\<lambda>r. length r = 2) W"
  shows "pool_weights_of self \<theta>w x =
     Inr (case general_classifier_preference self of
            None \<Rightarrow> map (\<lambda>r. [[r ! 0], [r ! 1]]) W
          | Some p \<Rightarrow> map (\<lambda>r. [[(1 - p) * (r ! 0) + p], [(1 - p) * (r ! 1)]]) W)"
proof (cases "general_classifier_preference self")
  case None
  then show ?thesis
    by (simp add: pool_weights_of_def assms(1,2) reshape_2_1_rows [OF assms(3)]
          apply_preference_def)
next
  case (Some p)
  have "map (\<lambda>r. [[r ! 0], [r ! 1]]) W = map (\<lambda>(g, i). [[g], [i]]) (map (\<lambda>r. (r ! 0, r ! 1)) W)"
    by (simp add: o_def)
  then have "apply_preference (Some p) (map (\<lambda>r. [[r ! 0], [r ! 1]]) W) =
      Inr (map (\<lambda>r. [[(1 - p) * (r ! 0) + p], [(1 - p) * (r ! 1)]]) W)"
    by (simp only: apply_preference_pairs) (simp add: o_def)
  with Some show ?thesis
    by (simp add: pool_weights_of_def assms(1,2) reshape_2_1_rows [OF assms(3)])
qed

text \<open>
  C9. For a preference \<open>p\<close> in \<open>[0, 1]\<close> and pool weights that are non-negative and
  sum to one for every event, the skewed pool weights are again non-negative and
  sum to one for every event.
\<close>

theorem preference_skew_convex:
  assumes "0 \<le> p" and "p \<le> 1"
    and "list_all (\<lambda>(g, i). 0 \<le> g \<and> 0 \<le> i \<and> g + i = 1) ws"
  shows "\<exists>ws'. apply_preference (Some p) (map (\<lambda>(g, i). [[g], [i]]) ws) =
            Inr (map (\<lambda>(g, i). [[g], [i]]) ws')
          \<and> length ws' = length ws
          \<and> list_all (\<lambda>(g, i). 0 \<le> g \<and> 0 \<le> i \<and> g + i = 1) ws'"
proof -
  let ?ws' = "map (\<lambda>(g, i). ((1 - p) * g + p, (1 - p) * i)) ws"
  have "apply_preference (Some p) (map (\<lambda>(g, i). [[g], [i]]) ws) =
      Inr (map (\<lambda>(g, i). [[g], [i]]) ?ws')"
    by (simp only: apply_preference_pairs) (simp add: o_def case_prod_unfold)
  moreover have "list_all (\<lambda>(g, i). 0 \<le> g \<and> 0 \<le> i \<and> g + i = 1) ?ws'"
    unfolding list_all_iff
  proof (clarsimp, intro conjI)
    fix g i assume "(g, i) \<in> set ws"
    with assms(3) have gi: "0 \<le> g" "0 \<le> i" "g + i = 1"
      by (auto simp: list_all_iff)
    from assms(1,2) gi show "0 \<le> (1 - p) * g + p" by simp
    from assms(2) gi show "0 \<le> (1 - p) * i" by simp
    have "(1 - p) * g + p + (1 - p) * i = (1 - p) * (g + i) + p"
      by (simp add: algebra_simps)
    with gi show "(1 - p) * g + p + (1 - p) * i = 1" by simp
  qed
  ultimately show ?thesis by (intro exI [of _ ?ws']) simp
qed

text \<open>
  The preference \<open>1/5\<close> on the weights \<open>(3/4, 1/4)\<close> and \<open>(0, 1)\<close> gives
  \<open>(4/5, 1/5)\<close> and \<open>(1/5, 4/5)\<close>.
\<close>

theorem preference_skew_convex_witness:
  "apply_preference (Some (1 / 5)) [[[3 / 4], [1 / 4]], [[0], [1]]] =
     Inr [[[4 / 5], [1 / 5]], [[1 / 5], [4 / 5]]]"
proof -
  have h: "list_all (\<lambda>(g, i). 0 \<le> g \<and> 0 \<le> i \<and> g + i = (1 :: real)) [(3 / 4, 1 / 4), (0, 1)]"
    by simp
  from preference_skew_convex [of "1 / 5" "[(3 / 4, 1 / 4), (0, 1)]", OF _ _ h]
  obtain ws' where "apply_preference (Some (1 / 5)) (map (\<lambda>(g, i). [[g], [i]]) [(3 / 4, 1 / 4), (0, 1)])
      = Inr (map (\<lambda>(g, i). [[g], [i]]) ws')"
    by auto
  moreover have "apply_preference (Some (1 / 5)) (map (\<lambda>(g, i). [[g], [i]]) [(3 / 4, 1 / 4), (0, 1)])
      = Inr [[[4 / 5], [1 / 5]], [[1 / 5], [4 / 5]]]"
    by (simp add: apply_preference_def torch_mul3_def torch_add3_def torch_mul2_def torch_add2_def
          torch_add1_def broadcast_def)
  ultimately show ?thesis by simp
qed

subsection \<open>The softmax gates\<close>











lemma sample_events_pT: "transverse_momentum sample_events = Inr [[5], [13]]"
proof -
  have r1: "sqrt (25 :: real) = 5" by (rule sqrt_of_square) simp_all
  have r2: "sqrt (169 :: real) = 13" by (rule sqrt_of_square) simp_all
  show ?thesis
    by (simp add: sample_events_def transverse_momentum_def index_last3_def index_last2_def
          index_last1_def torch_add1_def broadcast_def torch_pow_def torch_sqrt_def
          unsqueeze1_def r1 r2)
qed

lemma sample_weight_network_run:
  "sequential_forward (sample_learned 0 [[1], [0], [0], [0]]) 0
     (weight_network
        (projr (LatentSpacePooledHybridClassifier_init sample_extern 2 [4] [4] [4] [4] pref)))
     [[5], [13]] = Inr [[3 / 4, 1 / 4], [3 / 4, 1 / 4]]"
  by (simp add: sample_pooled_init sample_learned_def linear_def softmax_dim_def softmax_def)



text \<open>
  The forward pass of the pooled classifier on the sample events: the weight network
  returns \<open>(3/4, 1/4)\<close> for both, and the preference \<open>1/5\<close> turns them into
  \<open>(4/5, 1/5)\<close>.
\<close>

theorem preference_skew_formula_witness:
  "pool_weights_of
      (projr (LatentSpacePooledHybridClassifier_init sample_extern 2 [4] [4] [4] [4] (Some (1 / 5))))
      (sample_learned 0 [[1], [0], [0], [0]]) sample_events
     = Inr [[[4 / 5], [1 / 5]], [[4 / 5], [1 / 5]]]
   \<and> pool_weights_of
      (projr (LatentSpacePooledHybridClassifier_init sample_extern 2 [4] [4] [4] [4] None))
      (sample_learned 0 [[1], [0], [0], [0]]) sample_events
     = Inr [[[3 / 4], [1 / 4]], [[3 / 4], [1 / 4]]]"
proof -
  have run: "\<And>pref. sequential_forward (sample_learned 0 [[1], [0], [0], [0]]) 0
      (weight_network (projr (LatentSpacePooledHybridClassifier_init sample_extern 2 [4] [4] [4] [4] pref)))
      [[5], [13]] = Inr [[3 / 4, 1 / 4], [3 / 4, 1 / 4]]"
    by (rule sample_weight_network_run)
  have sh: "list_all (\<lambda>r. length r = 2) [[3 / 4, 1 / 4], [3 / 4, 1 / 4 :: real]]"
    by simp
  from preference_skew_formula [OF sample_events_pT run sh, of "Some (1 / 5)"]
    preference_skew_formula [OF sample_events_pT run sh, of None]
  show ?thesis
    by (simp add: sample_pooled_init)
qed

subsection \<open>Sum pooling\<close>

lemma torch_mul2_rows:
  "torch_mul2 [u, v] [[a], [b]] = Inr [map (\<lambda>x. x * a) u, map (\<lambda>x. x * b) v]"
proof -
  have "broadcast (\<lambda>x y. Inr (x * y)) w [c] = Inr (map (\<lambda>x. x * c) w)" for w :: vec and c
    by (rule broadcast_one) simp
  then show ?thesis
    by (simp add: torch_mul2_def broadcast_def [of "broadcast (\<lambda>a b. Inr (a * b))"])
qed

lemma torch_stack1_same:
  "list_all2 (\<lambda>u v. length u = length v) g i \<Longrightarrow>
     torch_stack1 g i = Inr (map (\<lambda>(u, v). [u, v]) (zip g i))"
  by (simp add: torch_stack1_def)

lemma stack_mul:
  assumes "length ws = length g" and "length g = length i"
  shows "torch_mul3 (map (\<lambda>(u, v). [u, v]) (zip g i)) (map (\<lambda>(a, b). [[a], [b]]) ws) =
     Inr (map (\<lambda>((u, v), (a, b)). [map (\<lambda>x. x * a) u, map (\<lambda>x. x * b) v]) (zip (zip g i) ws))"
proof -
  let ?G = "\<lambda>(m :: mat) (w :: mat). [map (\<lambda>x. x * hd (w ! 0)) (m ! 0), map (\<lambda>x. x * hd (w ! 1)) (m ! 1)]"
  have "torch_mul3 (map (\<lambda>(u, v). [u, v]) (zip g i)) (map (\<lambda>(a, b). [[a], [b]]) ws) =
      Inr (map (\<lambda>(m, w). ?G m w) (zip (map (\<lambda>(u, v). [u, v]) (zip g i)) (map (\<lambda>(a, b). [[a], [b]]) ws)))"
    unfolding torch_mul3_def
  proof (rule broadcast_same)
    show "length (map (\<lambda>(u, v). [u, v]) (zip g i)) = length (map (\<lambda>(a, b). [[a], [b]]) ws)"
      using assms by simp
  next
    fix m w
    assume "(m, w) \<in> set (zip (map (\<lambda>(u, v). [u, v]) (zip g i)) (map (\<lambda>(a, b). [[a], [b]]) ws))"
    then obtain u v a b where "m = [u, v]" "w = [[a], [b]]"
      by (auto simp: zip_map_map dest!: set_zip_leftD set_zip_rightD)
    then show "torch_mul2 m w = Inr (?G m w)"
      by (simp add: torch_mul2_rows)
  qed
  also have "map (\<lambda>(m, w). ?G m w) (zip (map (\<lambda>(u, v). [u, v]) (zip g i)) (map (\<lambda>(a, b). [[a], [b]]) ws))
     = map (\<lambda>((u, v), (a, b)). [map (\<lambda>x. x * a) u, map (\<lambda>x. x * b) v]) (zip (zip g i) ws)"
    by (simp add: zip_map_map case_prod_unfold)
  finally show ?thesis .
qed


lemma avg_pool_2d_pairs:
  assumes "x \<noteq> []"
    and "list_all (\<lambda>m. length m = 2 \<and> list_all (\<lambda>r. r \<noteq> []) m) x"
  shows "avg_pool_2d x = Inr (map (\<lambda>m. [map (\<lambda>(p, q). (p + q) / 2) (zip (m ! 0) (m ! 1))]) x)"
  unfolding avg_pool_2d_def if_not_P [OF assms(1)]
proof (rule each_Inr)
  fix m assume "m \<in> set x"
  with assms(2) have m: "length m = 2" "list_all (\<lambda>r. r \<noteq> []) m"
    by (auto simp: list_all_iff)
  then obtain r1 r2 where "m = [r1, r2]"
    by (cases m; cases "tl m"; cases "tl (tl m)") auto
  with m show "(if length m < 2 \<or> list_ex (\<lambda>r. length r = 0) m then Inl RuntimeError
                else Inr (pool_rows m)) = Inr [map (\<lambda>(p, q). (p + q) / 2) (zip (m ! 0) (m ! 1))]"
    by simp
qed

lemma sum_pool_2d_pairs:
  assumes "x \<noteq> []"
    and "list_all (\<lambda>m. length m = 2 \<and> list_all (\<lambda>r. r \<noteq> []) m) x"
  shows "sum_pool_2d x =
     Inr (squeeze (of_tensor3 (map (\<lambda>m. [map (\<lambda>(p, q). p + q) (zip (m ! 0) (m ! 1))]) x)))"
proof -
  have "map (\<lambda>a. a * 2) (map (\<lambda>(p, q). (p + q) / 2) zs) = map (\<lambda>(p, q). p + q) zs"
    for zs :: "(real \<times> real) list"
    by (simp add: case_prod_unfold)
  then have "scalar_mul3 (map (\<lambda>m. [map (\<lambda>(p, q). (p + q) / 2) (zip (m ! 0) (m ! 1))]) x) 2 =
      map (\<lambda>m. [map (\<lambda>(p, q). p + q) (zip (m ! 0) (m ! 1))]) x"
    by (simp add: scalar_mul3_def scalar_mul2_def o_def)
  then show ?thesis
    by (simp add: sum_pool_2d_def avg_pool_2d_pairs [OF assms])
qed

lemma squeeze_of_vec:
  "squeeze (of_vec r) = (if length r = 1 then Scalar (hd r) else of_vec r)"
proof (cases r)
  case Nil
  then show ?thesis by (simp add: of_vec_def)
next
  case (Cons a r')
  then show ?thesis
    by (cases r') (simp_all add: of_vec_def o_def)
qed

lemma squeeze_single_rows:
  "squeeze (of_tensor3 (map (\<lambda>r. [r]) rows)) =
     (if length rows = 1 then squeeze (of_vec (hd rows))
      else Tensor (map (\<lambda>r. squeeze (of_vec r)) rows))"
proof (cases rows)
  case Nil
  then show ?thesis by (simp add: of_tensor3_def)
next
  case (Cons a rows')
  then show ?thesis
    by (cases rows') (simp_all add: of_tensor3_def of_mat_def o_def)
qed

lemma squeeze_regular:
  assumes "2 \<le> length rows" and "list_all (\<lambda>r. 2 \<le> length r) rows"
  shows "squeeze (of_tensor3 (map (\<lambda>r. [r]) rows)) = of_mat rows"
proof -
  have "map (\<lambda>r. squeeze (of_vec r)) rows = map of_vec rows"
    by (rule map_cong) (use assms(2) in \<open>auto simp: squeeze_of_vec list_all_iff\<close>)
  with assms(1) show ?thesis
    by (simp add: squeeze_single_rows of_mat_def)
qed

lemma shape_Tensor_map:
  "xs \<noteq> [] \<Longrightarrow> shape (Tensor (map f xs)) = length xs # shape (f (hd xs))"
  by (cases xs) simp_all

lemma shape_squeeze_of_vec:
  "r \<noteq> [] \<Longrightarrow> shape (squeeze (of_vec r)) = (if length r = 1 then [] else [length r])"
  by (simp add: squeeze_of_vec) (simp add: of_vec_def shape_Tensor_map)

lemma shape_squeeze_single_rows:
  assumes "rows \<noteq> []" and "list_all (\<lambda>r. length r = d) rows" and "1 \<le> d"
  shows "shape (squeeze (of_tensor3 (map (\<lambda>r. [r]) rows))) =
     (if length rows = 1 then [] else [length rows]) @ (if d = 1 then [] else [d])"
proof -
  from assms have hd: "length (hd rows) = d" "hd rows \<noteq> []"
    by (cases rows; auto)+
  show ?thesis
    using assms(1) hd
    by (simp add: squeeze_single_rows shape_Tensor_map shape_squeeze_of_vec)
qed


lemma pooled_weighted_sum:
  assumes "length ws = length g"
    and "list_all2 (\<lambda>u v. length u = length v \<and> u \<noteq> []) g i"
    and "g \<noteq> []"
  shows "and_then (torch_stack1 g i) (\<lambda>combined.
           and_then (torch_mul3 combined (map (\<lambda>(a, b). [[a], [b]]) ws)) sum_pool_2d) =
         Inr (squeeze (of_tensor3 (map (\<lambda>r. [r]) (weighted_sum g i ws))))"
proof -
  let ?X = "map (\<lambda>((u, v), (a, b)). [map (\<lambda>x. x * a) u, map (\<lambda>x. x * b) v]) (zip (zip g i) ws)"
  have len: "length g = length i"
    using assms(2) by (rule list_all2_lengthD)
  have same: "list_all2 (\<lambda>u v. length u = length v) g i"
    using assms(2) by (rule list_all2_mono) simp
  have rows: "length u = length v \<and> u \<noteq> []" if "(u, v) \<in> set (zip g i)" for u v
    using assms(2) that by (auto simp: list_all2_iff)
  have st: "torch_stack1 g i = Inr (map (\<lambda>(u, v). [u, v]) (zip g i))"
    by (rule torch_stack1_same [OF same])
  have mul: "torch_mul3 (map (\<lambda>(u, v). [u, v]) (zip g i)) (map (\<lambda>(a, b). [[a], [b]]) ws) = Inr ?X"
    by (rule stack_mul [OF assms(1) len])
  have wf: "list_all (\<lambda>m. length m = 2 \<and> list_all (\<lambda>r. r \<noteq> []) m) ?X"
    unfolding list_all_iff
  proof
    fix m assume "m \<in> set ?X"
    then obtain uv ab where in_zip: "(uv, ab) \<in> set (zip (zip g i) ws)"
      and m': "m = (case (uv, ab) of ((u, v), (a, b)) \<Rightarrow> [map (\<lambda>x. x * a) u, map (\<lambda>x. x * b) v])"
      by auto
    obtain u v a b where split: "uv = (u, v)" "ab = (a, b)"
      by (cases uv; cases ab) auto
    from in_zip have uv: "(u, v) \<in> set (zip g i)"
      unfolding split by (rule set_zip_leftD)
    from m' have m: "m = [map (\<lambda>x. x * a) u, map (\<lambda>x. x * b) v]"
      by (simp add: split)
    from rows [OF uv] have "u \<noteq> []" "v \<noteq> []" by auto
    with m show "length m = 2 \<and> (\<forall>r\<in>set m. r \<noteq> [])" by simp
  qed
  have "map (\<lambda>m. [map (\<lambda>(p, q). p + q) (zip (m ! 0) (m ! 1))]) ?X =
      map (\<lambda>r. [r]) (weighted_sum g i ws)"
    by (simp add: weighted_sum_def zip_map_map case_prod_unfold o_def mult.commute)
  moreover have "length ?X = length g"
    using assms(1) len by simp
  then have "?X \<noteq> []"
    using assms(3) by auto
  ultimately
  have "sum_pool_2d ?X = Inr (squeeze (of_tensor3 (map (\<lambda>r. [r]) (weighted_sum g i ws))))"
    using sum_pool_2d_pairs [OF _ wf] by simp
  then show ?thesis
    by (simp add: st mul)
qed

lemma weighted_sum_rows:
  assumes "length ws = length g"
    and "list_all2 (\<lambda>u v. length u = length v \<and> u \<noteq> []) g i"
  shows "length (weighted_sum g i ws) = length g"
    and "list_all (\<lambda>u. n \<le> length u) g \<Longrightarrow> list_all (\<lambda>r. n \<le> length r) (weighted_sum g i ws)"
proof -
  have len: "length g = length i"
    using assms(2) by (rule list_all2_lengthD)
  show "length (weighted_sum g i ws) = length g"
    using assms(1) len by (simp add: weighted_sum_def)
  assume n: "list_all (\<lambda>u. n \<le> length u) g"
  show "list_all (\<lambda>r. n \<le> length r) (weighted_sum g i ws)"
    unfolding list_all_iff weighted_sum_def
  proof
    fix r assume "r \<in> set (map (\<lambda>((u, v), (a, b)). map (\<lambda>(x, y). a * x + b * y) (zip u v))
      (zip (zip g i) ws))"
    then obtain uv ab where in_zip: "(uv, ab) \<in> set (zip (zip g i) ws)"
      and r': "r = (case (uv, ab) of ((u, v), (a, b)) \<Rightarrow> map (\<lambda>(x, y). a * x + b * y) (zip u v))"
      by auto
    obtain u v a b where split: "uv = (u, v)" "ab = (a, b)"
      by (cases uv; cases ab) auto
    from in_zip have uv: "(u, v) \<in> set (zip g i)"
      unfolding split by (rule set_zip_leftD)
    from r' have r: "r = map (\<lambda>(x, y). a * x + b * y) (zip u v)"
      by (simp add: split)
    from uv assms(2) have "length u = length v" by (auto simp: list_all2_iff)
    moreover from uv n have "n \<le> length u" by (auto simp: list_all_iff dest: set_zip_leftD)
    ultimately show "n \<le> length r" by (simp add: r)
  qed
qed

lemma each_to_scalar: "each to_scalar (map Scalar r) = Inr r"
  by (induction r) simp_all

lemma to_vec_of_vec: "to_vec (of_vec r) = Inr r"
  by (simp add: of_vec_def each_to_scalar)

lemma to_mat_of_mat: "to_mat (of_mat m) = Inr m"
proof -
  have "each to_vec (map of_vec m) = Inr m"
    by (induction m) (simp_all add: to_vec_of_vec)
  then show ?thesis by (simp add: of_mat_def)
qed

lemma to_vec_of_mat: "m \<noteq> [] \<Longrightarrow> to_vec (of_mat m) = Inl RuntimeError"
  by (cases m) (simp_all add: of_mat_def of_vec_def)

lemma run_stack_of_mat:
  "m \<noteq> [] \<Longrightarrow> run_stack \<theta> layers (of_mat m) =
     and_then (sequential_forward \<theta> 0 layers m) (\<lambda>r. Inr (of_mat r))"
  using to_vec_of_mat [of m] to_mat_of_mat [of m]
  by (simp add: run_stack_def of_mat_def [of m])

text \<open>
  A head whose second layer is a batch normalisation raises on every rank-1 tensor:
  that is what a batch of one event hands to it.
\<close>

lemma run_stack_rank1_raises:
  "isl (run_stack \<theta> (Linear n_in n_out # BatchNorm1d n # layers) (of_vec v))"
proof (cases "linear n_in n_out (linear_weight \<theta> 0) (linear_bias \<theta> 0) [v]")
  case (Inl e)
  then show ?thesis
    by (simp add: run_stack_def of_vec_def [of v] each_to_scalar)
next
  case (Inr y)
  then show ?thesis
    by (simp add: run_stack_def of_vec_def [of v] each_to_scalar)
qed

text \<open>
  C3. In the forward pass, with the two sub-networks returning latent matrices
  \<open>g\<close> and \<open>i\<close> of one shape \<open>[batch, d]\<close>, \<open>batch \<ge> 1\<close> and \<open>d \<ge> 1\<close>, and the
  pool weights being one pair \<open>(a, b)\<close> for every event, the tensor that sum
  pooling returns and the classifier head receives is the squeezed tensor
  \<open>[batch, 1, d]\<close> whose entry for every event and every latent dimension is
  \<open>a * u + b * v\<close>, with no division by two; for \<open>batch \<ge> 2\<close> and \<open>d \<ge> 2\<close> that
  is the matrix \<open>weighted_sum g i ws\<close> itself, on which the head then runs.
\<close>

theorem sum_pool_is_weighted_sum:
  assumes "LatentSpacePooledHybridClassifier.general_p_map self x = Inr g"
    and "LatentSpacePooledHybridClassifier.invariant_p_map self x = Inr i"
    and "pool_weights_of self \<theta>w x = Inr (map (\<lambda>(a, b). [[a], [b]]) ws)"
    and "g \<noteq> []" and "length ws = length g"
    and "list_all2 (\<lambda>u v. length u = length v \<and> u \<noteq> []) g i"
  shows "pooled_latent self \<theta>w x =
           Inr (squeeze (of_tensor3 (map (\<lambda>r. [r]) (weighted_sum g i ws))))
     \<and> LatentSpacePooledHybridClassifier_forward self \<theta>w \<theta>s x =
           run_stack \<theta>s (LatentSpacePooledHybridClassifier.stack self)
             (squeeze (of_tensor3 (map (\<lambda>r. [r]) (weighted_sum g i ws))))
     \<and> (2 \<le> length g \<and> list_all (\<lambda>u. 2 \<le> length u) g \<longrightarrow>
           pooled_latent self \<theta>w x = Inr (of_mat (weighted_sum g i ws))
         \<and> LatentSpacePooledHybridClassifier_forward self \<theta>w \<theta>s x =
             and_then (sequential_forward \<theta>s 0 (LatentSpacePooledHybridClassifier.stack self)
                         (weighted_sum g i ws)) (\<lambda>r. Inr (of_mat r)))"
proof -
  have p: "pooled_latent self \<theta>w x =
      Inr (squeeze (of_tensor3 (map (\<lambda>r. [r]) (weighted_sum g i ws))))"
    using pooled_weighted_sum [OF assms(5,6,4)]
    by (simp add: pooled_latent_def assms(1,2,3) and_then_eq_Inr)
  then have f: "LatentSpacePooledHybridClassifier_forward self \<theta>w \<theta>s x =
      run_stack \<theta>s (LatentSpacePooledHybridClassifier.stack self)
        (squeeze (of_tensor3 (map (\<lambda>r. [r]) (weighted_sum g i ws))))"
    by (simp add: LatentSpacePooledHybridClassifier_forward_def)
  have "pooled_latent self \<theta>w x = Inr (of_mat (weighted_sum g i ws))
      \<and> LatentSpacePooledHybridClassifier_forward self \<theta>w \<theta>s x =
          and_then (sequential_forward \<theta>s 0 (LatentSpacePooledHybridClassifier.stack self)
                      (weighted_sum g i ws)) (\<lambda>r. Inr (of_mat r))"
    if reg: "2 \<le> length g \<and> list_all (\<lambda>u. 2 \<le> length u) g"
  proof -
    have sq: "squeeze (of_tensor3 (map (\<lambda>r. [r]) (weighted_sum g i ws))) =
        of_mat (weighted_sum g i ws)"
      using reg weighted_sum_rows(1) [OF assms(5,6)] weighted_sum_rows(2) [OF assms(5,6), of 2]
      by (intro squeeze_regular) simp_all
    have "weighted_sum g i ws \<noteq> []"
      using assms(4) weighted_sum_rows(1) [OF assms(5,6)] by auto
    then show ?thesis
      using p f by (simp add: sq run_stack_of_mat)
  qed
  with p f show ?thesis by blast
qed

lemma sample_module_pool_weights:
  "pool_weights_of sample_module (sample_learned 0 [[1], [0], [0], [0]]) sample_events =
     Inr [[[3 / 4], [1 / 4]], [[3 / 4], [1 / 4]]]"
  unfolding pool_weights_of_def sample_events_pT and_then_Inr
  by (simp add: sample_module_def sample_learned_def linear_def softmax_dim_def softmax_def
        reshape_2_1_def apply_preference_def)

lemma sample_head_run:
  "sequential_forward sample_head 0
     [Linear 2 4, BatchNorm1d 4, ReLU, Linear 4 4, BatchNorm1d 4, ReLU, Linear 4 1]
     [[13 / 4, 13 / 2], [5 / 4, 5 / 4]] = Inr [[39 / 4], [5 / 2]]"
  by (simp add: sample_head_def linear_def)

text \<open>
  Two events with latent rows \<open>(1, 2)\<close>, \<open>(10, 20)\<close> and \<open>(1, 1)\<close>, \<open>(2, 2)\<close>, and
  the pool weights \<open>(3/4, 1/4)\<close> for both: the head receives the rows
  \<open>(13/4, 13/2)\<close> and \<open>(5/4, 5/4)\<close>, twice their weighted averages, and under the
  sample state it returns the logits \<open>39/4\<close> and \<open>5/2\<close>.
\<close>

theorem sum_pool_is_weighted_sum_witness:
  "pooled_latent sample_module (sample_learned 0 [[1], [0], [0], [0]]) sample_events =
     Inr (Tensor [Tensor [Scalar (13 / 4), Scalar (13 / 2)], Tensor [Scalar (5 / 4), Scalar (5 / 4)]])
   \<and> LatentSpacePooledHybridClassifier_forward sample_module
       (sample_learned 0 [[1], [0], [0], [0]]) sample_head sample_events =
     Inr (Tensor [Tensor [Scalar (39 / 4)], Tensor [Scalar (5 / 2)]])"
proof -
  have g: "LatentSpacePooledHybridClassifier.general_p_map sample_module sample_events =
      Inr [[1, 2], [1, 1]]"
    and i: "LatentSpacePooledHybridClassifier.invariant_p_map sample_module sample_events =
      Inr [[10, 20], [2, 2]]"
    and st: "LatentSpacePooledHybridClassifier.stack sample_module =
      [Linear 2 4, BatchNorm1d 4, ReLU, Linear 4 4, BatchNorm1d 4, ReLU, Linear 4 1]"
    by (simp_all add: sample_module_def)
  have w: "pool_weights_of sample_module (sample_learned 0 [[1], [0], [0], [0]]) sample_events =
      Inr (map (\<lambda>(a, b). [[a], [b]]) [(3 / 4, 1 / 4), (3 / 4, 1 / 4)])"
    by (simp add: sample_module_pool_weights)
  have h: "list_all2 (\<lambda>u v. length u = length v \<and> u \<noteq> [])
      [[1, 2], [1, 1 :: real]] [[10, 20], [2, 2 :: real]]"
    by simp
  have ws: "weighted_sum [[1, 2], [1, 1]] [[10, 20], [2, 2]] [(3 / 4, 1 / 4), (3 / 4, 1 / 4)] =
      [[13 / 4, 13 / 2], [5 / 4, 5 / 4]]"
    by (simp add: weighted_sum_def)
  have ne: "[[1, 2], [1, 1 :: real]] \<noteq> []"
    and len: "length [(3 / 4, 1 / 4), (3 / 4, 1 / 4 :: real)] = length [[1, 2], [1, 1 :: real]]"
    and reg: "2 \<le> length [[1, 2], [1, 1 :: real]]
      \<and> list_all (\<lambda>u. 2 \<le> length u) [[1, 2], [1, 1 :: real]]"
    by simp_all
  from sum_pool_is_weighted_sum [OF g i w ne len h, of sample_head, THEN conjunct2,
      THEN conjunct2, rule_format, OF reg]
  show ?thesis
    by (simp only: ws st sample_head_run) (simp add: of_mat_def of_vec_def)
qed

text \<open>
  C10. On a tensor of shape \<open>[b, 2, d]\<close> with \<open>b \<ge> 1\<close> and \<open>d \<ge> 1\<close>, sum pooling
  returns a tensor whose shape is \<open>[b, 1, d]\<close> without its axes of size one:
  \<open>[b, d]\<close> for \<open>b \<ge> 2\<close> and \<open>d \<ge> 2\<close>, \<open>[d]\<close> for a batch of one, \<open>[b]\<close> for
  a latent dimension of one, and a scalar when both are one.
\<close>

theorem sum_pool_squeezes_unit_axes:
  assumes "length x = b"
    and "list_all (\<lambda>m. length m = 2 \<and> list_all (\<lambda>r. length r = d) m) x"
    and "1 \<le> b" and "1 \<le> d"
  shows "\<exists>t. sum_pool_2d x = Inr t
           \<and> shape t = (if b = 1 then [] else [b]) @ (if d = 1 then [] else [d])"
proof -
  let ?h = "\<lambda>m :: mat. map (\<lambda>(p, q). p + q) (zip (m ! 0) (m ! 1))"
  have rows: "length m = 2 \<and> length (m ! 0) = d \<and> length (m ! 1) = d" if "m \<in> set x" for m
  proof -
    from assms(2) that have m: "length m = 2" "list_all (\<lambda>r. length r = d) m"
      by (auto simp: list_all_iff)
    then obtain r1 r2 where "m = [r1, r2]"
      by (cases m; cases "tl m"; cases "tl (tl m)") auto
    with m show ?thesis by simp
  qed
  have wf: "list_all (\<lambda>m. length m = 2 \<and> list_all (\<lambda>r. r \<noteq> []) m) x"
    using assms(2,4) by (fastforce simp: list_all_iff)
  have eq: "map (\<lambda>m. [?h m]) x = map (\<lambda>r. [r]) (map ?h x)"
    by (simp add: o_def)
  have xne: "x \<noteq> []"
    using assms(1,3) by auto
  have t: "sum_pool_2d x = Inr (squeeze (of_tensor3 (map (\<lambda>r. [r]) (map ?h x))))"
    using sum_pool_2d_pairs [OF xne wf] by (simp only: eq)
  have ne: "map ?h x \<noteq> []"
    using xne by simp
  have d: "list_all (\<lambda>r. length r = d) (map ?h x)"
    using rows by (auto simp: list_all_iff)
  have "shape (squeeze (of_tensor3 (map (\<lambda>r. [r]) (map ?h x)))) =
      (if b = 1 then [] else [b]) @ (if d = 1 then [] else [d])"
    using shape_squeeze_single_rows [OF ne d assms(4)] assms(1) by simp
  with t show ?thesis by blast
qed

text \<open>
  A batch of one event with latent dimension 3 comes out with shape \<open>[3]\<close>; two
  events with latent dimension 1 come out with shape \<open>[2]\<close>.
\<close>

theorem sum_pool_squeezes_unit_axes_witness:
  "sum_pool_2d [[[1, 2, 3], [10, 20, 30]]] = Inr (Tensor [Scalar 11, Scalar 22, Scalar 33])
   \<and> shape (Tensor [Scalar 11, Scalar 22, Scalar 33]) = [3]
   \<and> sum_pool_2d [[[1], [10]], [[2], [20]]] = Inr (Tensor [Scalar 11, Scalar 22])
   \<and> shape (Tensor [Scalar 11, Scalar 22]) = [2]"
proof -
  have e1: "sum_pool_2d [[[1, 2, 3], [10, 20, 30]]] = Inr (Tensor [Scalar 11, Scalar 22, Scalar 33])"
    by (simp add: sum_pool_2d_def avg_pool_2d_def scalar_mul3_def scalar_mul2_def of_tensor3_def
          of_mat_def of_vec_def)
  have e2: "sum_pool_2d [[[1], [10]], [[2], [20]]] = Inr (Tensor [Scalar 11, Scalar 22])"
    by (simp add: sum_pool_2d_def avg_pool_2d_def scalar_mul3_def scalar_mul2_def of_tensor3_def
          of_mat_def of_vec_def)
  from sum_pool_squeezes_unit_axes [of "[[[1, 2, 3], [10, 20, 30]]]" 1 3]
    sum_pool_squeezes_unit_axes [of "[[[1], [10]], [[2], [20]]]" 2 1] e1 e2
  show ?thesis by simp
qed

end
